theory Spec2Isabelle
  imports Main
begin


section \<open>Identifiers and enumerations\<close>

text \<open>
  The generator of \<^verbatim>\<open>verilog_mux.cpp\<close> works on four collaborators: the circuit
  library, the multiplexer graph, the module manager and the output stream. Identifiers
  are opaque numbers.
\<close>

type_synonym CircuitModelId = nat
type_synonym CircuitPortId = nat
type_synonym ModuleId = nat
type_synonym MuxNodeId = nat
type_synonym MuxMemId = nat

text \<open>
  The enumerations of \<^verbatim>\<open>spice_types.h\<close>. Only the enumerators that
  \<^verbatim>\<open>verilog_mux.cpp\<close> names are spelled out; every other enumerator is folded
  into a last constructor.
\<close>

datatype e_spice_model_type = SPICE_MODEL_GATE | SPICE_MODEL_PASSGATE | SPICE_MODEL_TYPE_OTHER

datatype e_spice_model_gate_type = SPICE_MODEL_GATE_MUX2 | SPICE_MODEL_GATE_OTHER

datatype e_spice_model_design_tech =
  SPICE_MODEL_DESIGN_CMOS | SPICE_MODEL_DESIGN_RRAM | SPICE_MODEL_DESIGN_OTHER nat

datatype e_spice_model_port_type =
  SPICE_MODEL_PORT_INPUT | SPICE_MODEL_PORT_OUTPUT | SPICE_MODEL_PORT_SRAM

section \<open>The circuit library (read-only)\<close>

text \<open>
  The circuit library is borrowed read-only; the generator only queries it. It is taken
  as the record of the queries that \<^verbatim>\<open>verilog_mux.cpp\<close> calls, each under the name
  of the member function.
\<close>

record CircuitLibrary =
  pass_gate_logic_model :: "CircuitModelId \<Rightarrow> CircuitModelId"
  model_type :: "CircuitModelId \<Rightarrow> e_spice_model_type"
  gate_type :: "CircuitModelId \<Rightarrow> e_spice_model_gate_type"
  design_tech_type :: "CircuitModelId \<Rightarrow> e_spice_model_design_tech"
  model_name :: "CircuitModelId \<Rightarrow> string"
  dump_structural_verilog :: "CircuitModelId \<Rightarrow> bool"
  dump_explicit_port_map :: "CircuitModelId \<Rightarrow> bool"
  model_ports_by_type :: "CircuitModelId \<Rightarrow> e_spice_model_port_type \<Rightarrow> bool \<Rightarrow> CircuitPortId list"
  model_global_ports_by_type :: "CircuitModelId \<Rightarrow> e_spice_model_port_type \<Rightarrow> bool \<Rightarrow> CircuitPortId list"
  port_lib_name :: "CircuitPortId \<Rightarrow> string"
  port_size :: "CircuitPortId \<Rightarrow> nat"
  port_is_mode_select :: "CircuitPortId \<Rightarrow> bool"
  port_default_value :: "CircuitPortId \<Rightarrow> nat"

section \<open>Ports\<close>

text \<open>
  Modelled from the spec: the class \<^verbatim>\<open>BasicPort\<close> is declared outside the sources
  at hand. A port has a name and a bit width and is addressable as single-bit slices.
  The record keeps the least significant bit and the width, so that a port of size 0 has
  width 0.
\<close>

record BasicPort =
  get_name :: string
  get_lsb :: nat
  get_width :: nat

text \<open>The constructor \<^verbatim>\<open>BasicPort(name, size)\<close>.\<close>

definition BasicPort_sized :: "string \<Rightarrow> nat \<Rightarrow> BasicPort" where
  "BasicPort_sized name port_size' = \<lparr>get_name = name, get_lsb = 0, get_width = port_size'\<rparr>"

text \<open>The constructor \<^verbatim>\<open>BasicPort(name, lsb, msb)\<close>; the generator calls it with
  \<^verbatim>\<open>lsb = msb\<close> only.\<close>

definition BasicPort_range :: "string \<Rightarrow> nat \<Rightarrow> nat \<Rightarrow> BasicPort" where
  "BasicPort_range name lsb msb = \<lparr>get_name = name, get_lsb = lsb, get_width = Suc msb - lsb\<rparr>"

section \<open>The multiplexer graph\<close>

text \<open>
  Modelled from the spec: \<^verbatim>\<open>mux_graph.h\<close> is outside the sources at hand. A graph
  has input nodes, output nodes and memory bits; an edge connects one input to one
  output and is tagged with its controlling memory bit and a polarity flag.
  \<^verbatim>\<open>find_edges\<close> collects the edges between two nodes.
\<close>

record MuxEdge =
  edge_src :: MuxNodeId
  edge_sink :: MuxNodeId
  edge_mem :: MuxMemId
  edge_inv :: bool

record MuxGraph =
  inputs :: "MuxNodeId list"
  outputs :: "MuxNodeId list"
  input_id :: "MuxNodeId \<Rightarrow> nat"
  output_id :: "MuxNodeId \<Rightarrow> nat"
  edges :: "MuxEdge list"
  num_memory_bits :: nat
  num_levels :: nat

definition num_inputs :: "MuxGraph \<Rightarrow> nat" where
  "num_inputs g = length (inputs g)"

definition num_outputs :: "MuxGraph \<Rightarrow> nat" where
  "num_outputs g = length (outputs g)"

definition find_edges :: "MuxGraph \<Rightarrow> MuxNodeId \<Rightarrow> MuxNodeId \<Rightarrow> MuxEdge list" where
  "find_edges g from_node to_node =
     filter (\<lambda>e. edge_src e = from_node \<and> edge_sink e = to_node) (edges g)"

definition find_edge_mem :: "MuxGraph \<Rightarrow> MuxEdge \<Rightarrow> MuxMemId" where
  "find_edge_mem g e = edge_mem e"

definition is_edge_use_inv_mem :: "MuxGraph \<Rightarrow> MuxEdge \<Rightarrow> bool" where
  "is_edge_use_inv_mem g e = edge_inv e"

section \<open>The module manager\<close>

text \<open>
  Modelled from the spec: \<^verbatim>\<open>module_manager.h\<close> is outside the sources at hand. A
  module has a name, an ordered list of ports and its child modules; a module id is the
  position of the module in the registry, and \<open>None\<close> stands for
  \<^verbatim>\<open>ModuleId::INVALID()\<close>.
\<close>

datatype e_module_port_type = MODULE_GLOBAL_PORT | MODULE_INPUT_PORT | MODULE_OUTPUT_PORT

record Module =
  mod_name :: string
  mod_ports :: "(BasicPort \<times> e_module_port_type) list"
  mod_children :: "ModuleId list"

type_synonym ModuleManager = "Module list"

text \<open>\<^verbatim>\<open>find_module(name) -> id | invalid\<close>.\<close>

fun find_module :: "ModuleManager \<Rightarrow> string \<Rightarrow> ModuleId option" where
  "find_module [] name = None"
| "find_module (m # ms) name =
     (if mod_name m = name then Some 0 else map_option Suc (find_module ms name))"

text \<open>\<^verbatim>\<open>add_module(name) -> id\<close>: returns the existing id if the name is already
  registered, otherwise creates an empty module and returns a new id.\<close>

definition add_module :: "ModuleManager \<Rightarrow> string \<Rightarrow> ModuleManager \<times> ModuleId option" where
  "add_module mm name =
     (case find_module mm name of
        Some i \<Rightarrow> (mm, Some i)
      | None \<Rightarrow> (mm @ [\<lparr>mod_name = name, mod_ports = [], mod_children = []\<rparr>],
                 Some (length mm)))"

text \<open>\<^verbatim>\<open>add_port(module, port, category)\<close>: appends, with no check for a duplicate
  name. An id outside the registry changes nothing (the generator only passes ids that
  \<open>add_module\<close> returned).\<close>

definition add_port :: "ModuleManager \<Rightarrow> ModuleId \<Rightarrow> BasicPort \<Rightarrow> e_module_port_type \<Rightarrow> ModuleManager" where
  "add_port mm module_id port port_type =
     (if module_id < length mm
      then mm[module_id := (mm ! module_id)
                \<lparr>mod_ports := mod_ports (mm ! module_id) @ [(port, port_type)]\<rparr>]
      else mm)"

text \<open>\<^verbatim>\<open>add_child_module(parent, child)\<close>: records a usage edge; a second call for
  the same pair is a no-op.\<close>

definition add_child_module :: "ModuleManager \<Rightarrow> ModuleId \<Rightarrow> ModuleId \<Rightarrow> ModuleManager" where
  "add_child_module mm parent child =
     (if parent < length mm \<and> child \<notin> set (mod_children (mm ! parent))
      then mm[parent := (mm ! parent)
                \<lparr>mod_children := mod_children (mm ! parent) @ [child]\<rparr>]
      else mm)"

section \<open>The output stream\<close>

text \<open>
  The stream \<^verbatim>\<open>fp\<close> receives a sequence of items. What the generator itself writes
  with \<^verbatim>\<open><<\<close> is kept as it is written (strings, numbers, line ends). The
  writer utilities of \<^verbatim>\<open>verilog_writer_utils.h\<close> are outside the sources at hand:
  each call is kept as one item holding the arguments of the call.
\<close>

datatype e_dump_verilog_port_type = VERILOG_PORT_REG | VERILOG_PORT_CONKT

datatype tok =
    Str string
  | Num nat
  | Endl
  | Port e_dump_verilog_port_type BasicPort
  | Comment string
  | FileHeader string
  | IncludeDefines string
  | ModuleDeclaration ModuleId Module
  | ModuleInstance ModuleId ModuleId "string \<Rightarrow> BasicPort option" bool
  | ModuleEnd string

record fstream =
  is_open :: bool
  written :: "tok list"

record gen_state =
  module_manager :: ModuleManager
  fp :: fstream

datatype error =
    InvalidFileHandler
  | AssertionFailed string
  | InvalidDesignTech string
  | IndexOutOfRange string

type_synonym result = "(error \<times> gen_state) + gen_state"

text \<open>The state in which a call ends, whether it returns or aborts.\<close>

fun state_of :: "result \<Rightarrow> gen_state" where
  "state_of (Inl (e, st)) = st"
| "state_of (Inr st) = st"

definition emit :: "tok list \<Rightarrow> gen_state \<Rightarrow> gen_state" where
  "emit ts st = st\<lparr>fp := (fp st)\<lparr>written := written (fp st) @ ts\<rparr>\<rparr>"

text \<open>A \<^verbatim>\<open>for\<close> loop whose body may abort: the first abort ends the loop.\<close>

fun for_each :: "('a \<Rightarrow> 's \<Rightarrow> 'e + 's) \<Rightarrow> 'a list \<Rightarrow> 's \<Rightarrow> 'e + 's" where
  "for_each body [] st = Inr st"
| "for_each body (x # xs) st =
     (case body x st of Inl e \<Rightarrow> Inl e | Inr st' \<Rightarrow> for_each body xs st')"

section \<open>Writer utilities\<close>

text \<open>
  Modelled from the spec: \<^verbatim>\<open>check_file_handler\<close> (of \<^verbatim>\<open>fpga_x2p_utils.h\<close>,
  outside the sources at hand) makes any use of an unopened or invalid output stream a
  fatal error.
\<close>

definition check_file_handler :: "gen_state \<Rightarrow> result" where
  "check_file_handler st = (if is_open (fp st) then Inr st else Inl (InvalidFileHandler, st))"

definition print_verilog_comment :: "string \<Rightarrow> gen_state \<Rightarrow> gen_state" where
  "print_verilog_comment comment st = emit [Comment comment] st"

definition print_verilog_file_header :: "string \<Rightarrow> gen_state \<Rightarrow> gen_state" where
  "print_verilog_file_header usage st = emit [FileHeader usage] st"

definition print_verilog_include_defines_preproc_file :: "string \<Rightarrow> gen_state \<Rightarrow> gen_state" where
  "print_verilog_include_defines_preproc_file verilog_dir st = emit [IncludeDefines verilog_dir] st"

text \<open>The declaration reads the module's name and ports from the module manager as
  they are at the time of the call. The generator passes the id that \<open>add_module\<close>
  has just returned, which is in the registry.\<close>

definition print_verilog_module_declaration :: "ModuleId \<Rightarrow> gen_state \<Rightarrow> gen_state" where
  "print_verilog_module_declaration module_id st =
     emit [ModuleDeclaration module_id (module_manager st ! module_id)] st"

definition print_verilog_module_instance ::
  "ModuleId \<Rightarrow> ModuleId \<Rightarrow> (string \<Rightarrow> BasicPort option) \<Rightarrow> bool \<Rightarrow> gen_state \<Rightarrow> gen_state" where
  "print_verilog_module_instance parent_module child_module port2port_name_map explicit_port_map st =
     emit [ModuleInstance parent_module child_module port2port_name_map explicit_port_map] st"

definition print_verilog_module_end :: "string \<Rightarrow> gen_state \<Rightarrow> gen_state" where
  "print_verilog_module_end name st = emit [ModuleEnd name] st"

definition tab :: string where
  "tab = [CHR 0x09]"

definition digit_char :: "nat \<Rightarrow> char" where
  "digit_char d = ''0123456789'' ! d"

text \<open>\<^verbatim>\<open>std::to_string\<close> on an unsigned number: its decimal digits.\<close>

fun to_string :: "nat \<Rightarrow> string" where
  "to_string n =
     (if n < 10 then [digit_char n] else to_string (n div 10) @ [digit_char (n mod 10)])"

declare to_string.simps [simp del]

section \<open>Structural body of a branch module\<close>

text \<open>
  \<^verbatim>\<open>generate_verilog_cmos_mux_branch_body_structural\<close>. The inner loop body is the
  iteration for one output node, the outer one the iteration for one input node.
\<close>

definition structural_output_iter ::
  "CircuitLibrary \<Rightarrow> CircuitModelId \<Rightarrow> ModuleId \<Rightarrow> ModuleId \<Rightarrow> CircuitPortId list \<Rightarrow>
   CircuitPortId list \<Rightarrow> BasicPort \<Rightarrow> BasicPort \<Rightarrow> BasicPort \<Rightarrow> MuxGraph \<Rightarrow> MuxNodeId \<Rightarrow>
   BasicPort \<Rightarrow> MuxNodeId \<Rightarrow> gen_state \<Rightarrow> result" where
  "structural_output_iter circuit_lib tgate_model module_id tgate_module_id tgate_input_ports
     tgate_output_ports output_port mem_port mem_inv_port mux_graph mux_input cur_input_port
     mux_output st =
   (let cur_output_port = BasicPort_range (get_name output_port)
                            (output_id mux_graph mux_output) (output_id mux_graph mux_output);
        edges' = find_edges mux_graph mux_input mux_output
    in if \<not> (1 = length edges' \<or> 0 = length edges')
       then Inl (AssertionFailed ''(1 == edges.size()) || (0 == edges.size())'', st)
       else if 0 = length edges' then Inr st
       else
        (let m0 = Map.empty(port_lib_name circuit_lib (tgate_input_ports ! 0) \<mapsto> cur_input_port);
             m1 = m0(port_lib_name circuit_lib (tgate_output_ports ! 0) \<mapsto> cur_output_port);
             mux_mem = find_edge_mem mux_graph (edges' ! 0);
             cur_mem_port = BasicPort_range (get_name mem_port) mux_mem mux_mem;
             cur_mem_inv_port = BasicPort_range (get_name mem_inv_port) mux_mem mux_mem;
             port2port_name_map =
               (if False = is_edge_use_inv_mem mux_graph (edges' ! 0)
                then m1(port_lib_name circuit_lib (tgate_input_ports ! 1) \<mapsto> cur_mem_port,
                        port_lib_name circuit_lib (tgate_input_ports ! 2) \<mapsto> cur_mem_inv_port)
                else m1(port_lib_name circuit_lib (tgate_input_ports ! 1) \<mapsto> cur_mem_inv_port,
                        port_lib_name circuit_lib (tgate_input_ports ! 2) \<mapsto> cur_mem_port));
             st1 = print_verilog_module_instance module_id tgate_module_id port2port_name_map
                     (dump_explicit_port_map circuit_lib tgate_model) st
         in Inr (st1\<lparr>module_manager :=
                       add_child_module (module_manager st1) module_id tgate_module_id\<rparr>)))"

definition structural_input_iter ::
  "CircuitLibrary \<Rightarrow> CircuitModelId \<Rightarrow> ModuleId \<Rightarrow> ModuleId \<Rightarrow> CircuitPortId list \<Rightarrow>
   CircuitPortId list \<Rightarrow> BasicPort \<Rightarrow> BasicPort \<Rightarrow> BasicPort \<Rightarrow> BasicPort \<Rightarrow> MuxGraph \<Rightarrow>
   MuxNodeId \<Rightarrow> gen_state \<Rightarrow> result" where
  "structural_input_iter circuit_lib tgate_model module_id tgate_module_id tgate_input_ports
     tgate_output_ports input_port output_port mem_port mem_inv_port mux_graph mux_input st =
   (let cur_input_port = BasicPort_range (get_name input_port)
                           (input_id mux_graph mux_input) (input_id mux_graph mux_input)
    in for_each
         (structural_output_iter circuit_lib tgate_model module_id tgate_module_id
            tgate_input_ports tgate_output_ports output_port mem_port mem_inv_port mux_graph
            mux_input cur_input_port)
         (outputs mux_graph) st)"

definition generate_verilog_cmos_mux_branch_body_structural ::
  "CircuitLibrary \<Rightarrow> CircuitModelId \<Rightarrow> ModuleId \<Rightarrow> BasicPort \<Rightarrow> BasicPort \<Rightarrow> BasicPort \<Rightarrow>
   BasicPort \<Rightarrow> MuxGraph \<Rightarrow> gen_state \<Rightarrow> result" where
  "generate_verilog_cmos_mux_branch_body_structural circuit_lib tgate_model module_id input_port
     output_port mem_port mem_inv_port mux_graph st =
   (case check_file_handler st of
      Inl e \<Rightarrow> Inl e
    | Inr st \<Rightarrow>
       (case find_module (module_manager st) (model_name circuit_lib tgate_model) of
          None \<Rightarrow> Inl (AssertionFailed ''ModuleId::INVALID() != tgate_module_id'', st)
        | Some tgate_module_id \<Rightarrow>
           (let tgate_input_ports =
                  model_ports_by_type circuit_lib tgate_model SPICE_MODEL_PORT_INPUT True;
                tgate_output_ports =
                  model_ports_by_type circuit_lib tgate_model SPICE_MODEL_PORT_OUTPUT True
            in if 3 \<noteq> length tgate_input_ports
               then Inl (AssertionFailed ''3 == tgate_input_ports.size()'', st)
               else if 1 \<noteq> length tgate_output_ports
               then Inl (AssertionFailed ''1 == tgate_output_ports.size()'', st)
               else for_each
                      (structural_input_iter circuit_lib tgate_model module_id tgate_module_id
                         tgate_input_ports tgate_output_ports input_port output_port mem_port
                         mem_inv_port mux_graph)
                      (inputs mux_graph)
                      (print_verilog_comment ''---- Structure-level description -----'' st))))"

section \<open>Behavioral body of a branch module\<close>

text \<open>
  \<^verbatim>\<open>generate_verilog_cmos_mux_branch_body_behavioral\<close>. Writing
  \<^verbatim>\<open>case_code[size_t(mux_mem)]\<close> beyond the string is undefined in the source; the
  model aborts there.
\<close>

definition behavioral_output_iter ::
  "BasicPort \<Rightarrow> BasicPort \<Rightarrow> BasicPort \<Rightarrow> MuxGraph \<Rightarrow> char \<Rightarrow> BasicPort \<Rightarrow> MuxNodeId \<Rightarrow>
   BasicPort \<Rightarrow> MuxNodeId \<Rightarrow> gen_state \<Rightarrow> result" where
  "behavioral_output_iter input_port output_port mem_port mux_graph default_mem_val outreg_port
     mux_input cur_input_port mux_output st =
   (let cur_output_port = BasicPort_range (get_name output_port)
                            (output_id mux_graph mux_output) (output_id mux_graph mux_output);
        edges' = find_edges mux_graph mux_input mux_output
    in if \<not> (1 = length edges' \<or> 0 = length edges')
       then Inl (AssertionFailed ''(1 == edges.size()) || (0 == edges.size())'', st)
       else if 0 = length edges' then Inr st
       else
        (let st1 = emit [Str (tab @ tab), Num (get_width mem_port), Str [CHR 0x27, CHR ''b'']] st;
             case_code = replicate (get_width mem_port) default_mem_val;
             mux_mem = find_edge_mem mux_graph (edges' ! 0)
         in if \<not> mux_mem < length case_code
            then Inl (IndexOutOfRange ''case_code[size_t(mux_mem)]'', st1)
            else
             (let case_code' =
                    (if False = is_edge_use_inv_mem mux_graph (edges' ! 0)
                     then case_code[mux_mem := CHR ''1'']
                     else case_code[mux_mem := CHR ''0'']);
                  st2 = emit [Str case_code', Str '': '', Port VERILOG_PORT_CONKT outreg_port,
                              Str '' <= ''] st1
              in Inr (emit [Port VERILOG_PORT_CONKT cur_input_port, Str '';'', Endl] st2))))"

definition behavioral_input_iter ::
  "BasicPort \<Rightarrow> BasicPort \<Rightarrow> BasicPort \<Rightarrow> MuxGraph \<Rightarrow> char \<Rightarrow> BasicPort \<Rightarrow> MuxNodeId \<Rightarrow>
   gen_state \<Rightarrow> result" where
  "behavioral_input_iter input_port output_port mem_port mux_graph default_mem_val outreg_port
     mux_input st =
   (let cur_input_port = BasicPort_range (get_name input_port)
                           (input_id mux_graph mux_input) (input_id mux_graph mux_input)
    in for_each
         (behavioral_output_iter input_port output_port mem_port mux_graph default_mem_val
            outreg_port mux_input cur_input_port)
         (outputs mux_graph) st)"

definition generate_verilog_cmos_mux_branch_body_behavioral ::
  "BasicPort \<Rightarrow> BasicPort \<Rightarrow> BasicPort \<Rightarrow> MuxGraph \<Rightarrow> char \<Rightarrow> gen_state \<Rightarrow> result" where
  "generate_verilog_cmos_mux_branch_body_behavioral input_port output_port mem_port mux_graph
     default_mem_val st =
   (case check_file_handler st of
      Inl e \<Rightarrow> Inl e
    | Inr st \<Rightarrow>
       (let st1 = print_verilog_comment ''---- Behavioral-level description -----'' st;
            outreg_port = BasicPort_sized ''out_reg'' (num_outputs mux_graph);
            st2 = emit [Str tab, Port VERILOG_PORT_REG outreg_port, Str '';'', Endl] st1;
            st3 = emit [Str (tab @ ''always @(''), Port VERILOG_PORT_CONKT input_port, Str '', '',
                        Port VERILOG_PORT_CONKT mem_port, Str '')'', Endl] st2;
            st4 = emit [Str (tab @ ''case (''), Port VERILOG_PORT_CONKT mem_port, Str '')'', Endl] st3
        in case for_each
                  (behavioral_input_iter input_port output_port mem_port mux_graph
                     default_mem_val outreg_port)
                  (inputs mux_graph) st4 of
             Inl e \<Rightarrow> Inl e
           | Inr st5 \<Rightarrow>
              (let default_case = replicate (num_outputs mux_graph) CHR ''z'';
                   st6 = emit [Str (tab @ tab @ ''default: ''),
                               Port VERILOG_PORT_CONKT outreg_port, Str '' <= ''] st5;
                   st7 = emit [Num (num_outputs mux_graph), Str [CHR 0x27, CHR ''b''],
                               Str default_case, Str '';'', Endl] st6;
                   st8 = emit [Str (tab @ ''endcase''), Endl] st7;
                   st9 = emit [Str (tab @ ''assign ''), Port VERILOG_PORT_CONKT output_port,
                               Str '' = ''] st8
               in Inr (emit [Port VERILOG_PORT_CONKT outreg_port, Str '';'', Endl] st9))))"

section \<open>Branch modules\<close>

text \<open>\<^verbatim>\<open>generate_verilog_cmos_mux_branch_module\<close>.\<close>

definition generate_verilog_cmos_mux_branch_module ::
  "CircuitLibrary \<Rightarrow> CircuitModelId \<Rightarrow> string \<Rightarrow> MuxGraph \<Rightarrow> bool \<Rightarrow> gen_state \<Rightarrow> result" where
  "generate_verilog_cmos_mux_branch_module circuit_lib circuit_model module_name' mux_graph
     use_structural_verilog st =
   (let tgate_model = pass_gate_logic_model circuit_lib circuit_model
    in if SPICE_MODEL_GATE = model_type circuit_lib tgate_model
       then (if SPICE_MODEL_GATE_MUX2 = gate_type circuit_lib tgate_model
             then Inr st
             else Inl (AssertionFailed
                         ''SPICE_MODEL_GATE_MUX2 == circuit_lib.gate_type(tgate_model)'', st))
       else
        (let tgate_global_ports =
               model_global_ports_by_type circuit_lib tgate_model SPICE_MODEL_PORT_INPUT True
         in case check_file_handler st of
              Inl e \<Rightarrow> Inl e
            | Inr st \<Rightarrow>
               (let num_inputs' = num_inputs mux_graph;
                    num_outputs' = num_outputs mux_graph;
                    num_mems = num_memory_bits mux_graph
                in if 1 \<noteq> num_outputs' then Inl (AssertionFailed ''1 == num_outputs'', st)
                   else if 1 \<noteq> num_levels mux_graph
                   then Inl (AssertionFailed ''1 == mux_graph.num_levels()'', st)
                   else
                    (case add_module (module_manager st) module_name' of
                       (mm1, None) \<Rightarrow>
                         Inl (AssertionFailed ''ModuleId::INVALID() != module_id'',
                              st\<lparr>module_manager := mm1\<rparr>)
                     | (mm1, Some module_id) \<Rightarrow>
                        (let mm2 = foldl (\<lambda>mm port.
                                      add_port mm module_id
                                        (BasicPort_sized (port_lib_name circuit_lib port)
                                           (port_size circuit_lib port))
                                        MODULE_GLOBAL_PORT)
                                     mm1 tgate_global_ports;
                             input_port = BasicPort_sized ''in'' num_inputs';
                             mm3 = add_port mm2 module_id input_port MODULE_INPUT_PORT;
                             output_port = BasicPort_sized ''out'' num_outputs';
                             mm4 = add_port mm3 module_id output_port MODULE_OUTPUT_PORT;
                             mem_port = BasicPort_sized ''mem'' num_mems;
                             mm5 = add_port mm4 module_id mem_port MODULE_INPUT_PORT;
                             mem_inv_port = BasicPort_sized ''mem_inv'' num_mems;
                             mm6 = add_port mm5 module_id mem_inv_port MODULE_INPUT_PORT;
                             st1 = print_verilog_module_declaration module_id
                                     (st\<lparr>module_manager := mm6\<rparr>);
                             body =
                               (if True = use_structural_verilog
                                then generate_verilog_cmos_mux_branch_body_structural circuit_lib
                                       tgate_model module_id input_port output_port mem_port
                                       mem_inv_port mux_graph st1
                                else
                                 (let sram_ports = model_ports_by_type circuit_lib circuit_model
                                                     SPICE_MODEL_PORT_SRAM True;
                                      non_mode_select_sram_ports =
                                        filter (\<lambda>port. \<not> (True = port_is_mode_select circuit_lib port))
                                          sram_ports
                                  in if 1 \<noteq> length non_mode_select_sram_ports
                                     then Inl (AssertionFailed
                                                 ''1 == non_mode_select_sram_ports.size()'', st1)
                                     else
                                      (let mem_default_val =
                                             to_string (port_default_value circuit_lib
                                                          (non_mode_select_sram_ports ! 0))
                                       in if 1 \<noteq> length mem_default_val
                                          then Inl (AssertionFailed
                                                      ''1 == mem_default_val.length()'', st1)
                                          else generate_verilog_cmos_mux_branch_body_behavioral
                                                 input_port output_port mem_port mux_graph
                                                 (mem_default_val ! 0) st1)))
                         in case body of
                              Inl e \<Rightarrow> Inl e
                            | Inr st2 \<Rightarrow> Inr (print_verilog_module_end module_name' st2))))))"

text \<open>
  \<^verbatim>\<open>generate_verilog_mux_branch_module\<close>. The naming function
  \<^verbatim>\<open>generate_verilog_mux_branch_subckt_name\<close> (with the postfix constant it is
  given) is declared outside the sources at hand and is a parameter: it maps the circuit
  library, the circuit model, the multiplexer size and the number of inputs of the branch
  to the module name.
\<close>

definition generate_verilog_mux_branch_module ::
  "(CircuitLibrary \<Rightarrow> CircuitModelId \<Rightarrow> nat \<Rightarrow> nat \<Rightarrow> string) \<Rightarrow> CircuitLibrary \<Rightarrow>
   CircuitModelId \<Rightarrow> nat \<Rightarrow> MuxGraph \<Rightarrow> gen_state \<Rightarrow> result" where
  "generate_verilog_mux_branch_module generate_verilog_mux_branch_subckt_name circuit_lib
     circuit_model mux_size mux_graph st =
   (let module_name' = generate_verilog_mux_branch_subckt_name circuit_lib circuit_model
                         mux_size (num_inputs mux_graph)
    in case design_tech_type circuit_lib circuit_model of
         SPICE_MODEL_DESIGN_CMOS \<Rightarrow>
           generate_verilog_cmos_mux_branch_module circuit_lib circuit_model module_name'
             mux_graph (dump_structural_verilog circuit_lib circuit_model) st
       | SPICE_MODEL_DESIGN_RRAM \<Rightarrow> Inr st
       | SPICE_MODEL_DESIGN_OTHER v \<Rightarrow>
           Inl (InvalidDesignTech (model_name circuit_lib circuit_model), st))"

section \<open>The generation pass\<close>

text \<open>
  Modelled from the spec: \<^verbatim>\<open>MuxLibrary\<close> is declared outside the sources at hand.
  It is the catalogue of multiplexers, each a circuit model with its full graph, and
  \<^verbatim>\<open>max_mux_size\<close> is the largest multiplexer size in the catalogue (the size of a
  multiplexer is the number of inputs of its graph).
\<close>

record Mux =
  mux_circuit_model :: CircuitModelId
  mux_graph :: MuxGraph

type_synonym MuxLibrary = "Mux list"

definition max_mux_size :: "MuxLibrary \<Rightarrow> nat" where
  "max_mux_size mux_lib = foldl max 0 (map (\<lambda>mux. num_inputs (mux_graph mux)) mux_lib)"

text \<open>
  What the pass reads and changes outside itself: the module manager, the files on disk,
  which paths can be opened for writing, and the configuration-memory organization.
\<close>

record 's world =
  w_module_manager :: ModuleManager
  w_files :: "string \<Rightarrow> tok list option"
  w_openable :: "string \<Rightarrow> bool"
  w_sram_orgz_info :: 's

text \<open>\<^verbatim>\<open>fp.open(verilog_fname, std::fstream::out | std::fstream::trunc)\<close>: a path that
  can be opened is created or truncated.\<close>

definition fstream_open :: "'s world \<Rightarrow> string \<Rightarrow> 's world \<times> fstream" where
  "fstream_open w fname =
     (if w_openable w fname
      then (w\<lparr>w_files := (w_files w)(fname \<mapsto> [])\<rparr>, \<lparr>is_open = True, written = []\<rparr>)
      else (w, \<lparr>is_open = False, written = []\<rparr>))"

text \<open>The world once the stream is left, by \<^verbatim>\<open>fp.close()\<close> or by an abort: the
  file holds what was written to the stream (an abort may lose a buffered tail, so the
  file holds at most that).\<close>

definition leave_stream :: "'s world \<Rightarrow> string \<Rightarrow> gen_state \<Rightarrow> 's world" where
  "leave_stream w fname st =
     w\<lparr>w_module_manager := module_manager st,
       w_files := (w_files w)(fname \<mapsto> written (fp st))\<rparr>"

text \<open>
  \<^verbatim>\<open>print_verilog_submodule_muxes\<close>. Parameters for what is declared outside the
  sources at hand: the naming function, the decomposition
  \<^verbatim>\<open>MuxGraph::build_mux_branch_graphs\<close>, the update
  \<^verbatim>\<open>try_update_sram_orgz_info_reserved_blwl\<close> and the constant
  \<^verbatim>\<open>muxes_verilog_file_name\<close>. \<^verbatim>\<open>my_strcat\<close> is concatenation.
\<close>

definition print_verilog_submodule_muxes ::
  "(CircuitLibrary \<Rightarrow> CircuitModelId \<Rightarrow> nat \<Rightarrow> nat \<Rightarrow> string) \<Rightarrow> (MuxGraph \<Rightarrow> MuxGraph list) \<Rightarrow>
   ('s \<Rightarrow> nat \<Rightarrow> nat \<Rightarrow> 's) \<Rightarrow> string \<Rightarrow> MuxLibrary \<Rightarrow> CircuitLibrary \<Rightarrow> string \<Rightarrow> string \<Rightarrow>
   's world \<Rightarrow> (error \<times> 's world) + 's world" where
  "print_verilog_submodule_muxes generate_verilog_mux_branch_subckt_name build_mux_branch_graphs
     try_update_sram_orgz_info_reserved_blwl muxes_verilog_file_name mux_lib circuit_lib
     verilog_dir submodule_dir w =
   (let verilog_fname = (submodule_dir @ muxes_verilog_file_name) @ ''.bak'';
        (w1, fp0) = fstream_open w verilog_fname
    in case check_file_handler \<lparr>module_manager = w_module_manager w, fp = fp0\<rparr> of
         Inl (e, st) \<Rightarrow> Inl (e, w1)
       | Inr st \<Rightarrow>
          (let st1 = print_verilog_file_header ''Multiplexers'' st;
               st2 = print_verilog_include_defines_preproc_file verilog_dir st1
           in case for_each
                     (\<lambda>mux. for_each
                               (generate_verilog_mux_branch_module
                                  generate_verilog_mux_branch_subckt_name circuit_lib
                                  (mux_circuit_model mux) (num_inputs (mux_graph mux)))
                               (build_mux_branch_graphs (mux_graph mux)))
                     mux_lib st2 of
                Inl (e, st3) \<Rightarrow> Inl (e, leave_stream w1 verilog_fname st3)
              | Inr st3 \<Rightarrow>
                  Inr ((leave_stream w1 verilog_fname st3)
                         \<lparr>w_sram_orgz_info :=
                            try_update_sram_orgz_info_reserved_blwl (w_sram_orgz_info w)
                              (max_mux_size mux_lib) (max_mux_size mux_lib)\<rparr>)))"

text \<open>The world in which the pass ends, whether it returns or aborts.\<close>

fun world_of :: "(error \<times> 's world) + 's world \<Rightarrow> 's world" where
  "world_of (Inl (e, w)) = w"
| "world_of (Inr w) = w"

section \<open>Definitions for stating the properties\<close>

text \<open>Several ports appended to one module at once: what a run of \<open>add_port\<close> calls
  on the same module amounts to.\<close>

definition add_ports :: "ModuleManager \<Rightarrow> ModuleId \<Rightarrow> (BasicPort \<times> e_module_port_type) list \<Rightarrow> ModuleManager" where
  "add_ports mm module_id ps =
     mm[module_id := (mm ! module_id)\<lparr>mod_ports := mod_ports (mm ! module_id) @ ps\<rparr>]"

text \<open>The ports of a branch module, in the order of registration: one global port per
  global input port of the pass-gate model, then \<open>in\<close>, \<open>out\<close>, \<open>mem\<close> and
  \<open>mem_inv\<close>.\<close>

definition branch_module_ports ::
  "CircuitLibrary \<Rightarrow> CircuitModelId \<Rightarrow> MuxGraph \<Rightarrow> (BasicPort \<times> e_module_port_type) list" where
  "branch_module_ports circuit_lib circuit_model g =
     map (\<lambda>port. (BasicPort_sized (port_lib_name circuit_lib port) (port_size circuit_lib port),
                   MODULE_GLOBAL_PORT))
       (model_global_ports_by_type circuit_lib (pass_gate_logic_model circuit_lib circuit_model)
          SPICE_MODEL_PORT_INPUT True) @
     [(BasicPort_sized ''in'' (num_inputs g), MODULE_INPUT_PORT),
      (BasicPort_sized ''out'' (num_outputs g), MODULE_OUTPUT_PORT),
      (BasicPort_sized ''mem'' (num_memory_bits g), MODULE_INPUT_PORT),
      (BasicPort_sized ''mem_inv'' (num_memory_bits g), MODULE_INPUT_PORT)]"

text \<open>The state once the module is registered with its ports and its declaration is
  written: \<open>mm1\<close> and \<open>module_id\<close> are what \<open>add_module\<close> returned.\<close>

definition declared ::
  "CircuitLibrary \<Rightarrow> CircuitModelId \<Rightarrow> MuxGraph \<Rightarrow> ModuleManager \<Rightarrow> ModuleId \<Rightarrow> gen_state \<Rightarrow> gen_state" where
  "declared circuit_lib circuit_model g mm1 module_id st =
     st\<lparr>module_manager := add_ports mm1 module_id (branch_module_ports circuit_lib circuit_model g),
        fp := (fp st)\<lparr>written := written (fp st) @
                [ModuleDeclaration module_id
                   (add_ports mm1 module_id (branch_module_ports circuit_lib circuit_model g)
                      ! module_id)]\<rparr>\<rparr>"

text \<open>The wiring of one pass-gate instance: the data input and the data output of the
  pass gate, then its two control terminals, which take the memory bit and its complement,
  swapped when the edge is inverted.\<close>

definition tgate_port_map ::
  "CircuitLibrary \<Rightarrow> CircuitPortId list \<Rightarrow> CircuitPortId list \<Rightarrow> BasicPort \<Rightarrow> BasicPort \<Rightarrow>
   BasicPort \<Rightarrow> BasicPort \<Rightarrow> bool \<Rightarrow> string \<Rightarrow> BasicPort option" where
  "tgate_port_map circuit_lib tgate_input_ports tgate_output_ports data_in data_out mem_bit
     mem_inv_bit inverted =
     [port_lib_name circuit_lib (tgate_input_ports ! 0) \<mapsto> data_in,
      port_lib_name circuit_lib (tgate_output_ports ! 0) \<mapsto> data_out,
      port_lib_name circuit_lib (tgate_input_ports ! 1) \<mapsto> (if inverted then mem_inv_bit else mem_bit),
      port_lib_name circuit_lib (tgate_input_ports ! 2) \<mapsto> (if inverted then mem_bit else mem_inv_bit)]"

definition tgate_instance ::
  "CircuitLibrary \<Rightarrow> CircuitModelId \<Rightarrow> ModuleId \<Rightarrow> ModuleId \<Rightarrow> MuxGraph \<Rightarrow> MuxNodeId \<Rightarrow>
   MuxNodeId \<Rightarrow> MuxEdge \<Rightarrow> tok" where
  "tgate_instance circuit_lib tgate_model module_id tgate_module_id g i o' e =
     ModuleInstance module_id tgate_module_id
       (tgate_port_map circuit_lib
          (model_ports_by_type circuit_lib tgate_model SPICE_MODEL_PORT_INPUT True)
          (model_ports_by_type circuit_lib tgate_model SPICE_MODEL_PORT_OUTPUT True)
          (BasicPort_range ''in'' (input_id g i) (input_id g i))
          (BasicPort_range ''out'' (output_id g o') (output_id g o'))
          (BasicPort_range ''mem'' (edge_mem e) (edge_mem e))
          (BasicPort_range ''mem_inv'' (edge_mem e) (edge_mem e))
          (edge_inv e))
       (dump_explicit_port_map circuit_lib tgate_model)"


text \<open>
  Modelled from the spec: the invariant of a multiplexer graph. Every edge connects one
  input node to one output node and is controlled by one of the memory bits; there is at
  most one edge per (input, output) pair; the input nodes are pairwise different.
\<close>

definition mux_graph_invariant :: "MuxGraph \<Rightarrow> bool" where
  "mux_graph_invariant g \<longleftrightarrow>
     distinct (inputs g) \<and>
     (\<forall>e\<in>set (edges g). edge_src e \<in> set (inputs g) \<and> edge_sink e \<in> set (outputs g) \<and>
                          edge_mem e < num_memory_bits g) \<and>
     (\<forall>i\<in>set (inputs g). \<forall>o'\<in>set (outputs g). length (find_edges g i o') \<le> 1)"

text \<open>The case-table entry of one edge from input node \<open>i\<close>: a literal of \<open>W\<close> bits,
  all the default value \<open>d\<close> but the bit of the edge's memory bit, and the assignment
  of the input slice to the output register.\<close>

definition case_entry :: "nat \<Rightarrow> char \<Rightarrow> MuxGraph \<Rightarrow> MuxNodeId \<Rightarrow> MuxEdge \<Rightarrow> tok list" where
  "case_entry W d g i e =
     [Str (tab @ tab), Num W, Str [CHR 0x27, CHR ''b''],
      Str ((replicate W d)[edge_mem e := (if edge_inv e then CHR ''0'' else CHR ''1'')]),
      Str '': '', Port VERILOG_PORT_CONKT (BasicPort_sized ''out_reg'' (num_outputs g)),
      Str '' <= '',
      Port VERILOG_PORT_CONKT (BasicPort_range ''in'' (input_id g i) (input_id g i)),
      Str '';'', Endl]"

text \<open>What the behavioral body writes before the case entries and after them.\<close>

definition behavioral_head :: "MuxGraph \<Rightarrow> tok list" where
  "behavioral_head g =
     [Comment ''---- Behavioral-level description -----'',
      Str tab, Port VERILOG_PORT_REG (BasicPort_sized ''out_reg'' (num_outputs g)), Str '';'', Endl,
      Str (tab @ ''always @(''), Port VERILOG_PORT_CONKT (BasicPort_sized ''in'' (num_inputs g)),
      Str '', '', Port VERILOG_PORT_CONKT (BasicPort_sized ''mem'' (num_memory_bits g)),
      Str '')'', Endl,
      Str (tab @ ''case (''), Port VERILOG_PORT_CONKT (BasicPort_sized ''mem'' (num_memory_bits g)),
      Str '')'', Endl]"

definition behavioral_tail :: "MuxGraph \<Rightarrow> tok list" where
  "behavioral_tail g =
     [Str (tab @ tab @ ''default: ''),
      Port VERILOG_PORT_CONKT (BasicPort_sized ''out_reg'' (num_outputs g)), Str '' <= '',
      Num (num_outputs g), Str [CHR 0x27, CHR ''b''], Str (replicate (num_outputs g) CHR ''z''),
      Str '';'', Endl,
      Str (tab @ ''endcase''), Endl,
      Str (tab @ ''assign ''), Port VERILOG_PORT_CONKT (BasicPort_sized ''out'' (num_outputs g)),
      Str '' = '', Port VERILOG_PORT_CONKT (BasicPort_sized ''out_reg'' (num_outputs g)),
      Str '';'', Endl]"

text \<open>The items of the stream that open a module definition.\<close>

fun is_declaration :: "tok \<Rightarrow> bool" where
  "is_declaration (ModuleDeclaration module_id m) = True"
| "is_declaration t = False"

text \<open>What the body of a branch module leaves as it is, whether it returns or aborts:
  the names and the ports of all modules and the state of the stream; what it writes holds
  no module declaration.\<close>

definition body_frame :: "gen_state \<Rightarrow> gen_state \<Rightarrow> bool" where
  "body_frame s s' \<longleftrightarrow>
     map mod_name (module_manager s') = map mod_name (module_manager s) \<and>
     map mod_ports (module_manager s') = map mod_ports (module_manager s) \<and>
     is_open (fp s') = is_open (fp s) \<and>
     (\<exists>ts. written (fp s') = written (fp s) @ ts \<and> filter is_declaration ts = [])"

text \<open>The loop of the generation pass over the library, and the state in which it
  starts: the stream is open and holds the file header and the include section.\<close>

definition process_library ::
  "(CircuitLibrary \<Rightarrow> CircuitModelId \<Rightarrow> nat \<Rightarrow> nat \<Rightarrow> string) \<Rightarrow> (MuxGraph \<Rightarrow> MuxGraph list) \<Rightarrow>
   CircuitLibrary \<Rightarrow> MuxLibrary \<Rightarrow> gen_state \<Rightarrow> result" where
  "process_library nm decompose circuit_lib mux_lib st =
     for_each (\<lambda>mux. for_each
                 (generate_verilog_mux_branch_module nm circuit_lib (mux_circuit_model mux)
                    (num_inputs (mux_graph mux)))
                 (decompose (mux_graph mux)))
       mux_lib st"

definition pass_start :: "ModuleManager \<Rightarrow> string \<Rightarrow> gen_state" where
  "pass_start mm verilog_dir =
     \<lparr>module_manager = mm,
      fp = \<lparr>is_open = True, written = [FileHeader ''Multiplexers'', IncludeDefines verilog_dir]\<rparr>\<rparr>"

text \<open>A branch is emitted when the design technology of its circuit model is CMOS and
  the pass-gate model is not a logic gate. The names of the modules the pass emits: one
  per emitted branch of every entry, in the order of the library.\<close>

definition emits :: "CircuitLibrary \<Rightarrow> CircuitModelId \<Rightarrow> bool" where
  "emits circuit_lib circuit_model \<longleftrightarrow>
     design_tech_type circuit_lib circuit_model = SPICE_MODEL_DESIGN_CMOS \<and>
     model_type circuit_lib (pass_gate_logic_model circuit_lib circuit_model) \<noteq> SPICE_MODEL_GATE"

definition emitted_module_names ::
  "(CircuitLibrary \<Rightarrow> CircuitModelId \<Rightarrow> nat \<Rightarrow> nat \<Rightarrow> string) \<Rightarrow> (MuxGraph \<Rightarrow> MuxGraph list) \<Rightarrow>
   CircuitLibrary \<Rightarrow> MuxLibrary \<Rightarrow> string list" where
  "emitted_module_names nm decompose circuit_lib mux_lib =
     concat (map (\<lambda>mux.
        concat (map (\<lambda>branch.
           if emits circuit_lib (mux_circuit_model mux)
           then [nm circuit_lib (mux_circuit_model mux) (num_inputs (mux_graph mux))
                   (num_inputs branch)]
           else [])
          (decompose (mux_graph mux))))
       mux_lib)"

text \<open>The names of the module declarations in a stream.\<close>

fun declared_name :: "tok \<Rightarrow> string" where
  "declared_name (ModuleDeclaration module_id m) = mod_name m"
| "declared_name t = []"

definition declared_names :: "tok list \<Rightarrow> string list" where
  "declared_names ts = map declared_name (filter is_declaration ts)"

text \<open>The names in the module manager after the modules of the given names were
  requested one after the other with \<open>add_module\<close>: a name that is not yet present is
  appended, a name that is present changes nothing.\<close>

definition register_names :: "string list \<Rightarrow> string list \<Rightarrow> string list" where
  "register_names present requested =
     foldl (\<lambda>names n. if n \<in> set names then names else names @ [n]) present requested"

section \<open>A 4:1 branch as running example\<close>

text \<open>
  The branch of the specification's examples: four inputs, one output, one level, the
  edges \<open>(in0, out)\<close> on \<open>mem0\<close>, \<open>(in1, out)\<close> on \<open>mem1\<close> inverted,
  \<open>(in2, out)\<close> on \<open>mem2\<close> and \<open>(in3, out)\<close> on \<open>mem3\<close>. Circuit model 0
  is the multiplexer, circuit model 1 its pass gate \<open>TGATE\<close>, which is registered in
  the module manager beforehand.
\<close>

definition ex_circuit_lib :: "bool \<Rightarrow> CircuitLibrary" where
  "ex_circuit_lib structural =
     \<lparr>pass_gate_logic_model = (\<lambda>m. 1),
      model_type = (\<lambda>m. if m = 1 then SPICE_MODEL_PASSGATE else SPICE_MODEL_TYPE_OTHER),
      gate_type = (\<lambda>m. SPICE_MODEL_GATE_OTHER),
      design_tech_type = (\<lambda>m. SPICE_MODEL_DESIGN_CMOS),
      model_name = (\<lambda>m. if m = 1 then ''TGATE'' else ''mux''),
      dump_structural_verilog = (\<lambda>m. structural),
      dump_explicit_port_map = (\<lambda>m. True),
      model_ports_by_type =
        (\<lambda>m t ignore_global.
           if m = 1
           then (case t of SPICE_MODEL_PORT_INPUT \<Rightarrow> [10, 11, 12]
                 | SPICE_MODEL_PORT_OUTPUT \<Rightarrow> [13]
                 | SPICE_MODEL_PORT_SRAM \<Rightarrow> [])
           else (case t of SPICE_MODEL_PORT_SRAM \<Rightarrow> [20] | _ \<Rightarrow> [])),
      model_global_ports_by_type = (\<lambda>m t ignore_config. if m = 1 then [30] else []),
      port_lib_name =
        (\<lambda>p. if p = 10 then ''in'' else if p = 11 then ''sel'' else if p = 12 then ''selb''
              else if p = 13 then ''out'' else if p = 30 then ''pwr'' else ''sram''),
      port_size = (\<lambda>p. 1),
      port_is_mode_select = (\<lambda>p. False),
      port_default_value = (\<lambda>p. 0)\<rparr>"

definition ex_edges :: "MuxEdge list" where
  "ex_edges =
     [\<lparr>edge_src = 0, edge_sink = 4, edge_mem = 0, edge_inv = False\<rparr>,
      \<lparr>edge_src = 1, edge_sink = 4, edge_mem = 1, edge_inv = True\<rparr>,
      \<lparr>edge_src = 2, edge_sink = 4, edge_mem = 2, edge_inv = False\<rparr>,
      \<lparr>edge_src = 3, edge_sink = 4, edge_mem = 3, edge_inv = False\<rparr>]"

definition ex_mux_graph :: MuxGraph where
  "ex_mux_graph =
     \<lparr>inputs = [0, 1, 2, 3], outputs = [4], input_id = (\<lambda>n. n), output_id = (\<lambda>n. 0),
      edges = ex_edges, num_memory_bits = 4, num_levels = 1\<rparr>"

definition ex_tgate_module :: Module where
  "ex_tgate_module = \<lparr>mod_name = ''TGATE'', mod_ports = [], mod_children = []\<rparr>"

definition ex_state :: gen_state where
  "ex_state = \<lparr>module_manager = [ex_tgate_module], fp = \<lparr>is_open = True, written = []\<rparr>\<rparr>"

text \<open>The wires of an instance at the given terminal names (nothing for any other
  item of the stream).\<close>

definition tok_wires :: "string list \<Rightarrow> tok \<Rightarrow> BasicPort option list" where
  "tok_wires names t = (case t of ModuleInstance p c m x \<Rightarrow> map m names | _ \<Rightarrow> [])"

text \<open>Variations of the example: a pass gate that is a 2:1 logic-gate multiplexer, a
  graph with two outputs, a design technology that is neither CMOS nor RRAM, an RRAM
  model, a circuit model with two configuration ports of equal default value, and a naming
  function.\<close>

definition ex_gate_lib :: CircuitLibrary where
  "ex_gate_lib = (ex_circuit_lib True)
     \<lparr>model_type := (\<lambda>m. SPICE_MODEL_GATE), gate_type := (\<lambda>m. SPICE_MODEL_GATE_MUX2)\<rparr>"

definition ex_two_output_graph :: MuxGraph where
  "ex_two_output_graph = ex_mux_graph\<lparr>outputs := [4, 5]\<rparr>"

definition ex_other_tech_lib :: CircuitLibrary where
  "ex_other_tech_lib = ex_gate_lib\<lparr>design_tech_type := (\<lambda>m. SPICE_MODEL_DESIGN_OTHER 2)\<rparr>"

definition ex_two_sram_lib :: CircuitLibrary where
  "ex_two_sram_lib = (ex_circuit_lib False)
     \<lparr>model_ports_by_type :=
        (\<lambda>m t ignore_global.
           if m = 1
           then (case t of SPICE_MODEL_PORT_INPUT \<Rightarrow> [10, 11, 12]
                 | SPICE_MODEL_PORT_OUTPUT \<Rightarrow> [13]
                 | SPICE_MODEL_PORT_SRAM \<Rightarrow> [])
           else (case t of SPICE_MODEL_PORT_SRAM \<Rightarrow> [20, 21] | _ \<Rightarrow> []))\<rparr>"

definition ex_subckt_name :: "CircuitLibrary \<Rightarrow> CircuitModelId \<Rightarrow> nat \<Rightarrow> nat \<Rightarrow> string" where
  "ex_subckt_name circuit_lib circuit_model mux_size branch_size =
     model_name circuit_lib circuit_model @ ''_size'' @ to_string mux_size @ ''_basis_input'' @
     to_string branch_size"

definition ex_rram_lib :: CircuitLibrary where
  "ex_rram_lib = (ex_circuit_lib True)\<lparr>design_tech_type := (\<lambda>m. SPICE_MODEL_DESIGN_RRAM)\<rparr>"


text \<open>A library with the 4:1 multiplexer, and one that holds it twice; a decomposition
  for one-level graphs, which are their own sole branch; an update of the
  configuration-memory organization that records its calls; a world with no file yet.\<close>

definition ex_mux :: Mux where
  "ex_mux = \<lparr>mux_circuit_model = 0, mux_graph = ex_mux_graph\<rparr>"

definition ex_decompose :: "MuxGraph \<Rightarrow> MuxGraph list" where
  "ex_decompose g = [g]"

definition ex_try_update :: "(nat \<times> nat) list \<Rightarrow> nat \<Rightarrow> nat \<Rightarrow> (nat \<times> nat) list" where
  "ex_try_update calls reserved_bl reserved_wl = calls @ [(reserved_bl, reserved_wl)]"

definition ex_world :: "(nat \<times> nat) list world" where
  "ex_world =
     \<lparr>w_module_manager = [ex_tgate_module], w_files = Map.empty, w_openable = (\<lambda>p. True),
      w_sram_orgz_info = []\<rparr>"

text \<open>The pass gate as a 2:1 logic-gate multiplexer under the RRAM technology.\<close>

definition ex_rram_gate_lib :: CircuitLibrary where
  "ex_rram_gate_lib = ex_gate_lib\<lparr>design_tech_type := (\<lambda>m. SPICE_MODEL_DESIGN_RRAM)\<rparr>"

section \<open>Facts about the module manager\<close>

lemma find_module_Some:
  "find_module mm n = Some i \<Longrightarrow> i < length mm \<and> mod_name (mm ! i) = n"
  by (induction mm arbitrary: i) (auto split: if_splits)

lemma find_module_None: "find_module mm n = None \<longleftrightarrow> n \<notin> mod_name ` set mm"
  by (induction mm) auto

lemma find_module_append:
  "find_module (mm @ [m]) n =
     (case find_module mm n of
        Some i \<Rightarrow> Some i
      | None \<Rightarrow> if mod_name m = n then Some (length mm) else None)"
  by (induction mm) (auto split: option.splits)

lemma find_module_names:
  "map mod_name mm = map mod_name mm' \<Longrightarrow> find_module mm n = find_module mm' n"
proof (induction mm arbitrary: mm')
  case Nil
  then show ?case by simp
next
  case (Cons m ms)
  then obtain m' ms' where "mm' = m' # ms'" and "mod_name m = mod_name m'"
    and "map mod_name ms = map mod_name ms'"
    by (cases mm') auto
  with Cons.IH[of ms'] show ?case by simp
qed

lemma add_module_result:
  assumes "add_module mm n = (mm', r)"
  shows "\<exists>i. r = Some i \<and> i < length mm' \<and> mod_name (mm' ! i) = n"
proof (cases "find_module mm n")
  case None
  with assms have "mm' = mm @ [\<lparr>mod_name = n, mod_ports = [], mod_children = []\<rparr>]"
    and "r = Some (length mm)"
    by (simp_all add: add_module_def)
  then show ?thesis by simp
next
  case (Some i)
  with assms have "mm' = mm" and "r = Some i"
    by (simp_all add: add_module_def)
  with find_module_Some[OF Some] show ?thesis by simp
qed

lemma add_module_keeps:
  assumes "add_module mm n = (mm', r)" and "find_module mm x = Some t"
  shows "find_module mm' x = Some t"
proof (cases "find_module mm n")
  case None
  with assms(1) have "mm' = mm @ [\<lparr>mod_name = n, mod_ports = [], mod_children = []\<rparr>]"
    by (simp add: add_module_def)
  with assms(2) show ?thesis by (simp add: find_module_append)
next
  case (Some i)
  with assms(1) have "mm' = mm" by (simp add: add_module_def)
  with assms(2) show ?thesis by simp
qed

lemma add_ports_Nil: "add_ports mm i [] = mm"
  by (simp add: add_ports_def)

lemma add_port_add_ports:
  "i < length mm \<Longrightarrow> add_port (add_ports mm i ps) i p t = add_ports mm i (ps @ [(p, t)])"
  by (simp add: add_port_def add_ports_def)

lemma foldl_add_port:
  "i < length mm \<Longrightarrow>
   foldl (\<lambda>mm port. add_port mm i (f port) t) (add_ports mm i ps) xs =
     add_ports mm i (ps @ map (\<lambda>port. (f port, t)) xs)"
  by (induction xs arbitrary: ps) (simp_all add: add_port_add_ports)

lemma add_ports_names: "map mod_name (add_ports mm i ps) = map mod_name mm"
  by (cases "i < length mm")
     (simp_all add: add_ports_def map_update list_update_same_conv list_update_beyond)

lemma add_ports_length: "length (add_ports mm i ps) = length mm"
  by (simp add: add_ports_def)

lemma add_child_names: "map mod_name (add_child_module mm p c) = map mod_name mm"
  by (simp add: add_child_module_def map_update list_update_same_conv)

lemma add_child_ports: "map mod_ports (add_child_module mm p c) = map mod_ports mm"
  by (simp add: add_child_module_def map_update list_update_same_conv)

section \<open>Facts about branch modules\<close>

lemma funpow_add_apply: "(f ^^ (a + b)) x = (f ^^ b) ((f ^^ a) x)"
  by (simp add: add.commute[of a b] funpow_add)

lemma structural_input_iter_single:
  assumes "outputs g = [o']" and "length (find_edges g i o') \<le> 1"
    and "tin = model_ports_by_type lib tg SPICE_MODEL_PORT_INPUT True"
    and "tout = model_ports_by_type lib tg SPICE_MODEL_PORT_OUTPUT True"
  shows "structural_input_iter lib tg mid tid tin tout (BasicPort_sized ''in'' n1)
           (BasicPort_sized ''out'' n2) (BasicPort_sized ''mem'' n3)
           (BasicPort_sized ''mem_inv'' n3) g i st =
         Inr (st\<lparr>module_manager :=
                    ((\<lambda>mm. add_child_module mm mid tid) ^^ length (find_edges g i o'))
                      (module_manager st),
                  fp := (fp st)\<lparr>written := written (fp st) @
                          map (tgate_instance lib tg mid tid g i o') (find_edges g i o')\<rparr>\<rparr>)"
proof (cases "find_edges g i o'")
  case Nil
  with assms(1) show ?thesis
    by (simp add: structural_input_iter_def structural_output_iter_def)
next
  case (Cons e es)
  with assms(2) have es: "find_edges g i o' = [e]" by simp
  with assms(1,3,4) show ?thesis
    by (simp add: structural_input_iter_def structural_output_iter_def Let_def
        print_verilog_module_instance_def emit_def tgate_instance_def tgate_port_map_def
        find_edge_mem_def is_edge_use_inv_mem_def BasicPort_sized_def)
qed

lemma structural_loop_single:
  assumes "outputs g = [o']" and "\<forall>i\<in>set xs. length (find_edges g i o') \<le> 1"
    and "tin = model_ports_by_type lib tg SPICE_MODEL_PORT_INPUT True"
    and "tout = model_ports_by_type lib tg SPICE_MODEL_PORT_OUTPUT True"
  shows "for_each (structural_input_iter lib tg mid tid tin tout (BasicPort_sized ''in'' n1)
           (BasicPort_sized ''out'' n2) (BasicPort_sized ''mem'' n3)
           (BasicPort_sized ''mem_inv'' n3) g) xs st =
         Inr (st\<lparr>module_manager :=
                    ((\<lambda>mm. add_child_module mm mid tid) ^^
                       length (concat (map (\<lambda>i. find_edges g i o') xs)))
                      (module_manager st),
                  fp := (fp st)\<lparr>written := written (fp st) @
                          concat (map (\<lambda>i. map (tgate_instance lib tg mid tid g i o')
                                               (find_edges g i o')) xs)\<rparr>\<rparr>)"
  using assms(2)
proof (induction xs arbitrary: st)
  case Nil
  show ?case by simp
next
  case (Cons x xs)
  have step: "length (find_edges g x o') \<le> 1" using Cons.prems by simp
  have rest: "\<forall>i\<in>set xs. length (find_edges g i o') \<le> 1" using Cons.prems by simp
  show ?case
    by (simp add: structural_input_iter_single[OF assms(1) step assms(3,4)] Cons.IH[OF rest]
        funpow_add_apply)
qed

lemma header_ports:
  assumes "i < length mm"
  shows "add_port (add_port (add_port (add_port
           (foldl (\<lambda>mm port. add_port mm i (f port) t) mm gs) i p1 t1) i p2 t2) i p3 t3) i p4 t4 =
         add_ports mm i (map (\<lambda>port. (f port, t)) gs @ [(p1, t1), (p2, t2), (p3, t3), (p4, t4)])"
proof -
  have "foldl (\<lambda>mm port. add_port mm i (f port) t) mm gs =
          add_ports mm i (map (\<lambda>port. (f port, t)) gs)"
    using foldl_add_port[OF assms, of f t "[]" gs] by (simp add: add_ports_Nil)
  then show ?thesis by (simp add: add_port_add_ports[OF assms])
qed

lemma cmos_module_structural:
  assumes "model_type lib (pass_gate_logic_model lib model) \<noteq> SPICE_MODEL_GATE"
    and "is_open (fp st)" and "num_outputs g = 1" and "num_levels g = 1"
    and "add_module (module_manager st) name = (mm1, Some mid)"
  shows "generate_verilog_cmos_mux_branch_module lib model name g True st =
         (case generate_verilog_cmos_mux_branch_body_structural lib (pass_gate_logic_model lib model)
                 mid (BasicPort_sized ''in'' (num_inputs g)) (BasicPort_sized ''out'' (num_outputs g))
                 (BasicPort_sized ''mem'' (num_memory_bits g))
                 (BasicPort_sized ''mem_inv'' (num_memory_bits g)) g
                 (declared lib model g mm1 mid st) of
            Inl e \<Rightarrow> Inl e
          | Inr st2 \<Rightarrow> Inr (print_verilog_module_end name st2))"
proof -
  from add_module_result[OF assms(5)] have lt: "mid < length mm1" by simp
  show ?thesis
    using assms
    by (simp add: generate_verilog_cmos_mux_branch_module_def check_file_handler_def Let_def
        header_ports[OF lt] declared_def branch_module_ports_def
        print_verilog_module_declaration_def emit_def)
qed

lemma cmos_module_behavioral:
  assumes "model_type lib (pass_gate_logic_model lib model) \<noteq> SPICE_MODEL_GATE"
    and "is_open (fp st)" and "num_outputs g = 1" and "num_levels g = 1"
    and "add_module (module_manager st) name = (mm1, Some mid)"
  shows "generate_verilog_cmos_mux_branch_module lib model name g False st =
         (let ports = filter (\<lambda>port. \<not> port_is_mode_select lib port)
                        (model_ports_by_type lib model SPICE_MODEL_PORT_SRAM True)
          in if length ports \<noteq> 1
             then Inl (AssertionFailed ''1 == non_mode_select_sram_ports.size()'',
                       declared lib model g mm1 mid st)
             else if length (to_string (port_default_value lib (ports ! 0))) \<noteq> 1
             then Inl (AssertionFailed ''1 == mem_default_val.length()'',
                       declared lib model g mm1 mid st)
             else
              (case generate_verilog_cmos_mux_branch_body_behavioral
                      (BasicPort_sized ''in'' (num_inputs g)) (BasicPort_sized ''out'' (num_outputs g))
                      (BasicPort_sized ''mem'' (num_memory_bits g)) g
                      (to_string (port_default_value lib (ports ! 0)) ! 0)
                      (declared lib model g mm1 mid st) of
                 Inl e \<Rightarrow> Inl e
               | Inr st2 \<Rightarrow> Inr (print_verilog_module_end name st2)))"
proof -
  from add_module_result[OF assms(5)] have lt: "mid < length mm1" by simp
  show ?thesis
    using assms
    by (simp add: generate_verilog_cmos_mux_branch_module_def check_file_handler_def Let_def
        header_ports[OF lt] declared_def branch_module_ports_def
        print_verilog_module_declaration_def emit_def)
qed

lemma length_concat_le1:
  "\<forall>i\<in>set xs. length (f i) \<le> 1 \<Longrightarrow>
   length (concat (map f xs)) = length (filter (\<lambda>i. f i \<noteq> []) xs)"
proof (induction xs)
  case Nil
  show ?case by simp
next
  case (Cons x xs)
  then have "length (f x) \<le> 1" by simp
  then have "length (f x) = (if f x \<noteq> [] then 1 else 0)" by (cases "f x") auto
  with Cons show ?case by simp
qed

lemma declared_find_module:
  assumes "add_module (module_manager st) name = (mm1, r)"
    and "find_module (module_manager st) x = Some t"
  shows "find_module (module_manager (declared lib model g mm1 mid st)) x = Some t"
proof -
  have "find_module (add_ports mm1 mid (branch_module_ports lib model g)) x = find_module mm1 x"
    by (rule find_module_names) (rule add_ports_names)
  with add_module_keeps[OF assms] show ?thesis by (simp add: declared_def)
qed

lemma structural_body:
  assumes "is_open (fp st)"
    and "find_module (module_manager st) (model_name lib tg) = Some tid"
    and "length (model_ports_by_type lib tg SPICE_MODEL_PORT_INPUT True) = 3"
    and "length (model_ports_by_type lib tg SPICE_MODEL_PORT_OUTPUT True) = 1"
    and "outputs g = [o']" and "\<forall>i\<in>set (inputs g). length (find_edges g i o') \<le> 1"
  shows "generate_verilog_cmos_mux_branch_body_structural lib tg mid (BasicPort_sized ''in'' n1)
           (BasicPort_sized ''out'' n2) (BasicPort_sized ''mem'' n3)
           (BasicPort_sized ''mem_inv'' n3) g st =
         Inr (st\<lparr>module_manager :=
                    ((\<lambda>mm. add_child_module mm mid tid) ^^
                       length (concat (map (\<lambda>i. find_edges g i o') (inputs g))))
                      (module_manager st),
                  fp := (fp st)\<lparr>written := written (fp st) @
                          Comment ''---- Structure-level description -----'' #
                          concat (map (\<lambda>i. map (tgate_instance lib tg mid tid g i o')
                                               (find_edges g i o')) (inputs g))\<rparr>\<rparr>)"
  using assms(1-4)
  by (simp add: generate_verilog_cmos_mux_branch_body_structural_def check_file_handler_def
      structural_loop_single[OF assms(5,6) refl refl] print_verilog_comment_def emit_def)

lemma behavioral_input_iter_single:
  assumes "outputs g = [o']" and "length (find_edges g i o') \<le> 1"
    and "\<forall>e\<in>set (find_edges g i o'). edge_mem e < n3"
  shows "behavioral_input_iter (BasicPort_sized ''in'' n1) (BasicPort_sized ''out'' n2)
           (BasicPort_sized ''mem'' n3) g d (BasicPort_sized ''out_reg'' (num_outputs g)) i st =
         Inr (emit (concat (map (case_entry n3 d g i) (find_edges g i o'))) st)"
proof (cases "find_edges g i o'")
  case Nil
  with assms(1) show ?thesis
    by (simp add: behavioral_input_iter_def behavioral_output_iter_def emit_def)
next
  case (Cons e es)
  with assms(2) have es: "find_edges g i o' = [e]" by simp
  with assms(3) have "edge_mem e < n3" by simp
  with es assms(1) show ?thesis
    by (simp add: behavioral_input_iter_def behavioral_output_iter_def Let_def emit_def
        case_entry_def find_edge_mem_def is_edge_use_inv_mem_def BasicPort_sized_def)
qed

lemma emit_emit: "emit ts (emit ss st) = emit (ss @ ts) st"
  by (simp add: emit_def)

lemma behavioral_loop_single:
  assumes "outputs g = [o']"
    and "\<forall>i\<in>set xs. length (find_edges g i o') \<le> 1"
    and "\<forall>i\<in>set xs. \<forall>e\<in>set (find_edges g i o'). edge_mem e < n3"
  shows "for_each (behavioral_input_iter (BasicPort_sized ''in'' n1) (BasicPort_sized ''out'' n2)
           (BasicPort_sized ''mem'' n3) g d (BasicPort_sized ''out_reg'' (num_outputs g))) xs st =
         Inr (emit (concat (concat (map (\<lambda>i. map (case_entry n3 d g i) (find_edges g i o')) xs))) st)"
  using assms(2,3)
proof (induction xs arbitrary: st)
  case Nil
  show ?case by (simp add: emit_def)
next
  case (Cons x xs)
  have step: "length (find_edges g x o') \<le> 1" using Cons.prems by simp
  have mem: "\<forall>e\<in>set (find_edges g x o'). edge_mem e < n3" using Cons.prems by simp
  have rest: "\<forall>i\<in>set xs. length (find_edges g i o') \<le> 1"
    "\<forall>i\<in>set xs. \<forall>e\<in>set (find_edges g i o'). edge_mem e < n3" using Cons.prems by simp_all
  show ?case
    by (simp add: behavioral_input_iter_single[OF assms(1) step mem] Cons.IH[OF rest] emit_emit)
qed

lemma behavioral_body:
  assumes "is_open (fp st)" and "outputs g = [o']"
    and "\<forall>i\<in>set (inputs g). length (find_edges g i o') \<le> 1"
    and "\<forall>i\<in>set (inputs g). \<forall>e\<in>set (find_edges g i o'). edge_mem e < num_memory_bits g"
  shows "generate_verilog_cmos_mux_branch_body_behavioral (BasicPort_sized ''in'' (num_inputs g))
           (BasicPort_sized ''out'' (num_outputs g)) (BasicPort_sized ''mem'' (num_memory_bits g))
           g d st =
         Inr (emit (behavioral_head g @
                    concat (concat (map (\<lambda>i. map (case_entry (num_memory_bits g) d g i)
                                                 (find_edges g i o')) (inputs g))) @
                    behavioral_tail g) st)"
  using assms(1)
  by (simp add: generate_verilog_cmos_mux_branch_body_behavioral_def check_file_handler_def
      Let_def behavioral_loop_single[OF assms(2,3,4)] print_verilog_comment_def emit_emit
      behavioral_head_def behavioral_tail_def)

lemma edges_per_input:
  assumes "distinct xs"
  shows "length (concat (map (\<lambda>i. filter (\<lambda>e. edge_src e = i \<and> edge_sink e = o') es) xs)) =
         length (filter (\<lambda>e. edge_src e \<in> set xs \<and> edge_sink e = o') es)"
  using assms
proof (induction xs)
  case Nil
  show ?case by simp
next
  case (Cons x xs)
  have "length (filter (\<lambda>e. edge_src e = x \<and> edge_sink e = o') es) +
        length (filter (\<lambda>e. edge_src e \<in> set xs \<and> edge_sink e = o') es) =
        length (filter (\<lambda>e. edge_src e \<in> set (x # xs) \<and> edge_sink e = o') es)"
    using Cons.prems by (induction es) auto
  with Cons show ?case by simp
qed

lemma invariant_edge_count:
  assumes "mux_graph_invariant g" and "outputs g = [o']"
  shows "length (concat (map (\<lambda>i. find_edges g i o') (inputs g))) = length (edges g)"
proof -
  have "filter (\<lambda>e. edge_src e \<in> set (inputs g) \<and> edge_sink e = o') (edges g) = edges g"
    using assms by (auto simp: mux_graph_invariant_def filter_id_conv)
  moreover have "distinct (inputs g)" using assms(1) by (simp add: mux_graph_invariant_def)
  ultimately show ?thesis
    using edges_per_input[of "inputs g" o' "edges g"] by (simp add: find_edges_def)
qed

lemma to_string_digit: "d < 10 \<Longrightarrow> to_string d = [digit_char d]"
  by (simp add: to_string.simps)

lemma length_to_string: "length (to_string n) = 1 \<longleftrightarrow> n < 10"
proof (cases "n < 10")
  case True
  then show ?thesis by (simp add: to_string.simps)
next
  case False
  then have "to_string n = to_string (n div 10) @ [digit_char (n mod 10)]"
    by (subst to_string.simps) simp
  moreover have "to_string (n div 10) \<noteq> []"
    by (subst to_string.simps) simp
  ultimately show ?thesis using False by simp
qed

section \<open>What the bodies leave unchanged\<close>

lemma body_frame_refl: "body_frame s s"
  by (simp add: body_frame_def)

lemma body_frame_trans: "body_frame a b \<Longrightarrow> body_frame b c \<Longrightarrow> body_frame a c"
  unfolding body_frame_def
proof (elim conjE exE, intro conjI)
  fix ts ts'
  assume "written (fp b) = written (fp a) @ ts" "written (fp c) = written (fp b) @ ts'"
    "filter is_declaration ts = []" "filter is_declaration ts' = []"
  then have "written (fp c) = written (fp a) @ (ts @ ts') \<and> filter is_declaration (ts @ ts') = []"
    by simp
  then show "\<exists>ts. written (fp c) = written (fp a) @ ts \<and> filter is_declaration ts = []"
    by blast
qed simp_all

lemma for_each_state_rel:
  assumes "\<And>s. R s s" and "\<And>a b c. R a b \<Longrightarrow> R b c \<Longrightarrow> R a c"
    and "\<And>x s. x \<in> set xs \<Longrightarrow> R s (state_of (f x s))"
  shows "R s (state_of (for_each f xs s))"
  using assms(3)
proof (induction xs arbitrary: s)
  case Nil
  show ?case by (simp add: assms(1))
next
  case (Cons x xs)
  have first: "R s (state_of (f x s))" using Cons.prems by simp
  show ?case
  proof (cases "f x s")
    case (Inl a)
    with first show ?thesis by simp
  next
    case (Inr s')
    have "R s' (state_of (for_each f xs s'))" using Cons.IH Cons.prems by simp
    with first Inr assms(2) show ?thesis by auto
  qed
qed

lemma body_frame_emit: "filter is_declaration ts = [] \<Longrightarrow> body_frame s (emit ts s)"
  by (simp add: body_frame_def emit_def)

lemma structural_output_iter_frame:
  "body_frame s (state_of (structural_output_iter lib tg mid tid tin tout outp memp minvp g i
                             cur_in o' s))"
  by (simp add: structural_output_iter_def Let_def body_frame_def
      print_verilog_module_instance_def emit_def add_child_names add_child_ports)

lemma structural_input_iter_frame:
  "body_frame s (state_of (structural_input_iter lib tg mid tid tin tout inp outp memp minvp g i s))"
  unfolding structural_input_iter_def Let_def
  by (rule for_each_state_rel[where R = body_frame])
     (simp_all add: body_frame_refl structural_output_iter_frame, erule (1) body_frame_trans)

lemma structural_body_frame:
  "body_frame s (state_of (generate_verilog_cmos_mux_branch_body_structural lib tg mid inp outp
                             memp minvp g s))"
proof -
  let ?s1 = "print_verilog_comment ''---- Structure-level description -----'' s"
  have a: "body_frame s ?s1"
    by (simp add: print_verilog_comment_def body_frame_emit)
  have b: "body_frame ?s1 (state_of (for_each (structural_input_iter lib tg mid tid tin tout inp
             outp memp minvp g) (inputs g) ?s1))" for tid tin tout
    by (rule for_each_state_rel[where R = body_frame])
       (simp_all add: body_frame_refl structural_input_iter_frame, erule (1) body_frame_trans)
  show ?thesis
    using body_frame_trans[OF a b]
    by (simp add: generate_verilog_cmos_mux_branch_body_structural_def check_file_handler_def
        Let_def body_frame_refl split: option.splits)
qed

lemma behavioral_output_iter_frame:
  "body_frame s (state_of (behavioral_output_iter inp outp memp g d outreg i cur_in o' s))"
  by (simp add: behavioral_output_iter_def Let_def body_frame_def emit_def)

lemma behavioral_input_iter_frame:
  "body_frame s (state_of (behavioral_input_iter inp outp memp g d outreg i s))"
  unfolding behavioral_input_iter_def Let_def
  by (rule for_each_state_rel[where R = body_frame])
     (simp_all add: body_frame_refl behavioral_output_iter_frame, erule (1) body_frame_trans)

lemma behavioral_body_frame:
  "body_frame s (state_of (generate_verilog_cmos_mux_branch_body_behavioral inp outp memp g d s))"
proof (cases "is_open (fp s)")
  case False
  then show ?thesis
    by (simp add: generate_verilog_cmos_mux_branch_body_behavioral_def check_file_handler_def
        body_frame_refl)
next
  case True
  define s4 where "s4 = emit ([Comment ''---- Behavioral-level description -----'',
      Str tab, Port VERILOG_PORT_REG (BasicPort_sized ''out_reg'' (num_outputs g)), Str '';'', Endl,
      Str (tab @ ''always @(''), Port VERILOG_PORT_CONKT inp,
      Str '', '', Port VERILOG_PORT_CONKT memp, Str '')'', Endl,
      Str (tab @ ''case (''), Port VERILOG_PORT_CONKT memp, Str '')'', Endl]) s"
  let ?r = "for_each (behavioral_input_iter inp outp memp g d
                        (BasicPort_sized ''out_reg'' (num_outputs g))) (inputs g) s4"
  have a: "body_frame s s4" unfolding s4_def by (rule body_frame_emit) simp
  have b: "body_frame s4 (state_of ?r)"
    by (rule for_each_state_rel[where R = body_frame])
       (simp_all add: body_frame_refl behavioral_input_iter_frame, erule (1) body_frame_trans)
  have run: "generate_verilog_cmos_mux_branch_body_behavioral inp outp memp g d s =
     (case ?r of Inl e \<Rightarrow> Inl e
      | Inr s5 \<Rightarrow> Inr (emit [Str (tab @ tab @ ''default: ''),
      Port VERILOG_PORT_CONKT (BasicPort_sized ''out_reg'' (num_outputs g)), Str '' <= '',
      Num (num_outputs g), Str [CHR 0x27, CHR ''b''], Str (replicate (num_outputs g) CHR ''z''),
      Str '';'', Endl,
      Str (tab @ ''endcase''), Endl,
      Str (tab @ ''assign ''), Port VERILOG_PORT_CONKT outp,
      Str '' = '', Port VERILOG_PORT_CONKT (BasicPort_sized ''out_reg'' (num_outputs g)),
      Str '';'', Endl] s5))"
    using True
    by (simp add: generate_verilog_cmos_mux_branch_body_behavioral_def check_file_handler_def
        Let_def print_verilog_comment_def emit_emit s4_def split: sum.splits)
  show ?thesis
  proof (cases ?r)
    case (Inl e)
    with body_frame_trans[OF a b] show ?thesis unfolding run by simp
  next
    case (Inr s5)
    have "body_frame s5 (emit [Str (tab @ tab @ ''default: ''),
      Port VERILOG_PORT_CONKT (BasicPort_sized ''out_reg'' (num_outputs g)), Str '' <= '',
      Num (num_outputs g), Str [CHR 0x27, CHR ''b''], Str (replicate (num_outputs g) CHR ''z''),
      Str '';'', Endl,
      Str (tab @ ''endcase''), Endl,
      Str (tab @ ''assign ''), Port VERILOG_PORT_CONKT outp,
      Str '' = '', Port VERILOG_PORT_CONKT (BasicPort_sized ''out_reg'' (num_outputs g)),
      Str '';'', Endl] s5)"
      by (rule body_frame_emit) simp
    with body_frame_trans[OF a b] Inr show ?thesis
      unfolding run by (auto intro: body_frame_trans)
  qed
qed

section \<open>The cases of a CMOS branch module\<close>

lemma cmos_module_gate:
  assumes "model_type lib (pass_gate_logic_model lib model) = SPICE_MODEL_GATE"
  shows "generate_verilog_cmos_mux_branch_module lib model name g flag st =
         (if gate_type lib (pass_gate_logic_model lib model) = SPICE_MODEL_GATE_MUX2 then Inr st
          else Inl (AssertionFailed ''SPICE_MODEL_GATE_MUX2 == circuit_lib.gate_type(tgate_model)'', st))"
  using assms by (auto simp: generate_verilog_cmos_mux_branch_module_def)

lemma cmos_module_closed:
  assumes "model_type lib (pass_gate_logic_model lib model) \<noteq> SPICE_MODEL_GATE"
    and "\<not> is_open (fp st)"
  shows "generate_verilog_cmos_mux_branch_module lib model name g flag st =
         Inl (InvalidFileHandler, st)"
  using assms
  by (simp add: generate_verilog_cmos_mux_branch_module_def check_file_handler_def)

lemma cmos_module_shape:
  assumes "model_type lib (pass_gate_logic_model lib model) \<noteq> SPICE_MODEL_GATE"
    and "is_open (fp st)" and "num_outputs g \<noteq> 1 \<or> num_levels g \<noteq> 1"
  shows "generate_verilog_cmos_mux_branch_module lib model name g flag st =
         Inl (AssertionFailed (if num_outputs g \<noteq> 1 then ''1 == num_outputs''
                               else ''1 == mux_graph.num_levels()''), st)"
  using assms
  by (auto simp: generate_verilog_cmos_mux_branch_module_def check_file_handler_def Let_def)

lemma body_frame_end:
  assumes "body_frame s (state_of r)"
  shows "map mod_name (module_manager (state_of (case r of Inl e \<Rightarrow> Inl e
           | Inr s2 \<Rightarrow> Inr (print_verilog_module_end name s2)))) = map mod_name (module_manager s) \<and>
         map mod_ports (module_manager (state_of (case r of Inl e \<Rightarrow> Inl e
           | Inr s2 \<Rightarrow> Inr (print_verilog_module_end name s2)))) = map mod_ports (module_manager s)"
proof (cases r)
  case (Inl a)
  with assms show ?thesis by (cases a) (simp add: body_frame_def)
next
  case (Inr s2)
  with assms show ?thesis by (simp add: body_frame_def print_verilog_module_end_def emit_def)
qed

lemma cmos_module_managers:
  assumes "model_type lib (pass_gate_logic_model lib model) \<noteq> SPICE_MODEL_GATE"
    and "is_open (fp st)" and "num_outputs g = 1" and "num_levels g = 1"
    and "add_module (module_manager st) name = (mm1, Some mid)"
  shows "map mod_name (module_manager (state_of
           (generate_verilog_cmos_mux_branch_module lib model name g flag st))) =
         map mod_name mm1 \<and>
         map mod_ports (module_manager (state_of
           (generate_verilog_cmos_mux_branch_module lib model name g flag st))) =
         map mod_ports (add_ports mm1 mid (branch_module_ports lib model g))"
proof (cases flag)
  case True
  then have eq: "generate_verilog_cmos_mux_branch_module lib model name g flag st =
      generate_verilog_cmos_mux_branch_module lib model name g True st" by simp
  show ?thesis
    unfolding eq cmos_module_structural[OF assms]
    using body_frame_end[OF structural_body_frame]
    by (simp add: declared_def add_ports_names)
next
  case False
  then have eq: "generate_verilog_cmos_mux_branch_module lib model name g flag st =
      generate_verilog_cmos_mux_branch_module lib model name g False st" by simp
  show ?thesis
    unfolding eq cmos_module_behavioral[OF assms] Let_def
    using body_frame_end[OF behavioral_body_frame]
    by (simp add: declared_def add_ports_names)
qed

lemma structural_body_success:
  assumes "generate_verilog_cmos_mux_branch_body_structural lib tg mid inp outp memp minvp g s = Inr s2"
  shows "body_frame (print_verilog_comment ''---- Structure-level description -----'' s) s2"
proof -
  from assms obtain tid tin tout where
    "for_each (structural_input_iter lib tg mid tid tin tout inp outp memp minvp g) (inputs g)
       (print_verilog_comment ''---- Structure-level description -----'' s) = Inr s2"
    by (auto simp: generate_verilog_cmos_mux_branch_body_structural_def check_file_handler_def
        Let_def split: option.splits if_splits)
  moreover have "body_frame (print_verilog_comment ''---- Structure-level description -----'' s)
      (state_of (for_each (structural_input_iter lib tg mid tid tin tout inp outp memp minvp g)
         (inputs g) (print_verilog_comment ''---- Structure-level description -----'' s)))"
    by (rule for_each_state_rel[where R = body_frame])
       (simp_all add: body_frame_refl structural_input_iter_frame, erule (1) body_frame_trans)
  ultimately show ?thesis by simp
qed

lemma behavioral_body_success:
  assumes "generate_verilog_cmos_mux_branch_body_behavioral inp outp memp g d s = Inr s2"
  shows "body_frame (print_verilog_comment ''---- Behavioral-level description -----'' s) s2"
proof -
  let ?c = "print_verilog_comment ''---- Behavioral-level description -----'' s"
  define s4 where "s4 = emit ([
      Str tab, Port VERILOG_PORT_REG (BasicPort_sized ''out_reg'' (num_outputs g)), Str '';'', Endl,
      Str (tab @ ''always @(''), Port VERILOG_PORT_CONKT inp,
      Str '', '', Port VERILOG_PORT_CONKT memp, Str '')'', Endl,
      Str (tab @ ''case (''), Port VERILOG_PORT_CONKT memp, Str '')'', Endl]) ?c"
  let ?r = "for_each (behavioral_input_iter inp outp memp g d
                        (BasicPort_sized ''out_reg'' (num_outputs g))) (inputs g) s4"
  have a: "body_frame ?c s4" unfolding s4_def by (rule body_frame_emit) simp
  have b: "body_frame s4 (state_of ?r)"
    by (rule for_each_state_rel[where R = body_frame])
       (simp_all add: body_frame_refl behavioral_input_iter_frame, erule (1) body_frame_trans)
  from assms obtain s5 where r: "?r = Inr s5" and s2: "s2 = emit [Str (tab @ tab @ ''default: ''),
      Port VERILOG_PORT_CONKT (BasicPort_sized ''out_reg'' (num_outputs g)), Str '' <= '',
      Num (num_outputs g), Str [CHR 0x27, CHR ''b''], Str (replicate (num_outputs g) CHR ''z''),
      Str '';'', Endl,
      Str (tab @ ''endcase''), Endl,
      Str (tab @ ''assign ''), Port VERILOG_PORT_CONKT outp,
      Str '' = '', Port VERILOG_PORT_CONKT (BasicPort_sized ''out_reg'' (num_outputs g)),
      Str '';'', Endl] s5"
    by (auto simp: generate_verilog_cmos_mux_branch_body_behavioral_def check_file_handler_def
        Let_def emit_emit s4_def print_verilog_comment_def split: sum.splits if_splits)
  have c: "body_frame s5 s2" unfolding s2 by (rule body_frame_emit) simp
  from b r have "body_frame s4 s5" by simp
  with a c show ?thesis by (blast intro: body_frame_trans)
qed

lemma cmos_module_success:
  assumes "model_type lib (pass_gate_logic_model lib model) \<noteq> SPICE_MODEL_GATE"
    and "generate_verilog_cmos_mux_branch_module lib model name g flag st = Inr st'"
  shows "\<exists>mm1 mid ts. add_module (module_manager st) name = (mm1, Some mid) \<and>
           written (fp st') = written (fp st) @
             ModuleDeclaration mid (add_ports mm1 mid (branch_module_ports lib model g) ! mid) #
             Comment (if flag then ''---- Structure-level description -----''
                      else ''---- Behavioral-level description -----'') #
             ts @ [ModuleEnd name] \<and>
           filter is_declaration ts = [] \<and>
           map mod_name (module_manager st') = map mod_name mm1"
proof -
  have op: "is_open (fp st)"
    using assms cmos_module_closed[OF assms(1), of st name g flag] by auto
  have shape: "num_outputs g = 1 \<and> num_levels g = 1"
    using assms cmos_module_shape[OF assms(1) op, of g name flag] by auto
  obtain mm1 r where am: "add_module (module_manager st) name = (mm1, r)" by (cases "add_module (module_manager st) name")
  from add_module_result[OF am] obtain mid where r: "r = Some mid" by blast
  note am = am[unfolded r]
  note pre = assms(1) op shape[THEN conjunct1] shape[THEN conjunct2] am
  let ?d = "declared lib model g mm1 mid st"
  have names: "map mod_name (module_manager st') = map mod_name mm1"
    using cmos_module_managers[OF pre, of flag] assms(2) by simp
  have "\<exists>s2. body_frame (print_verilog_comment (if flag then ''---- Structure-level description -----''
                      else ''---- Behavioral-level description -----'') ?d) s2 \<and>
              st' = print_verilog_module_end name s2"
  proof (cases flag)
    case True
    with assms(2) cmos_module_structural[OF pre] show ?thesis
      by (auto split: sum.splits dest: structural_body_success)
  next
    case False
    with assms(2) cmos_module_behavioral[OF pre] show ?thesis
      by (auto simp: Let_def split: sum.splits if_splits dest: behavioral_body_success)
  qed
  then obtain s2 ts where "written (fp s2) = written (fp (print_verilog_comment
        (if flag then ''---- Structure-level description -----''
                      else ''---- Behavioral-level description -----'') ?d)) @ ts"
    and "filter is_declaration ts = []" and "st' = print_verilog_module_end name s2"
    by (auto simp: body_frame_def)
  then have "written (fp st') = written (fp st) @
             ModuleDeclaration mid (add_ports mm1 mid (branch_module_ports lib model g) ! mid) #
             Comment (if flag then ''---- Structure-level description -----''
                      else ''---- Behavioral-level description -----'') #
             ts @ [ModuleEnd name] \<and> filter is_declaration ts = []"
    by (simp add: print_verilog_module_end_def print_verilog_comment_def emit_def declared_def)
  with am names show ?thesis by blast
qed

section \<open>Facts about the generation pass\<close>

lemma pass_unfold:
  "print_verilog_submodule_muxes nm dec upd fname mux_lib lib vdir sdir w =
   (if \<not> w_openable w ((sdir @ fname) @ ''.bak'')
    then Inl (InvalidFileHandler, w)
    else case process_library nm dec lib mux_lib (pass_start (w_module_manager w) vdir) of
           Inl (e, st) \<Rightarrow>
             Inl (e, w\<lparr>w_module_manager := module_manager st,
                       w_files := (w_files w)((sdir @ fname) @ ''.bak'' \<mapsto> written (fp st))\<rparr>)
         | Inr st \<Rightarrow>
             Inr (w\<lparr>w_module_manager := module_manager st,
                    w_files := (w_files w)((sdir @ fname) @ ''.bak'' \<mapsto> written (fp st)),
                    w_sram_orgz_info := upd (w_sram_orgz_info w) (max_mux_size mux_lib)
                                          (max_mux_size mux_lib)\<rparr>))"
  by (simp add: print_verilog_submodule_muxes_def fstream_open_def check_file_handler_def
      Let_def process_library_def pass_start_def print_verilog_file_header_def
      print_verilog_include_defines_preproc_file_def emit_def leave_stream_def
      split: sum.splits prod.splits)

lemma max_mux_size_upper: "\<forall>mux\<in>set mux_lib. num_inputs (mux_graph mux) \<le> max_mux_size mux_lib"
proof -
  have "\<forall>x\<in>set xs. x \<le> foldl max a xs" "a \<le> foldl max a xs" for xs :: "nat list" and a
  proof (induction xs arbitrary: a)
    case Nil
    { case 1 show ?case by simp next case 2 show ?case by simp }
  next
    case (Cons x xs)
    { case 1
      have "max a x \<le> foldl max (max a x) xs" by (rule Cons.IH(2))
      with Cons.IH(1)[of "max a x"] show ?case by auto
    next
      case 2
      have "max a x \<le> foldl max (max a x) xs" by (rule Cons.IH(2))
      then show ?case by simp }
  qed
  then show ?thesis by (simp add: max_mux_size_def)
qed

lemma max_mux_size_attained:
  "mux_lib \<noteq> [] \<Longrightarrow> max_mux_size mux_lib \<in> (\<lambda>mux. num_inputs (mux_graph mux)) ` set mux_lib"
proof -
  have "foldl max a xs = a \<or> foldl max a xs \<in> set xs" for xs :: "nat list" and a
  proof (induction xs arbitrary: a)
    case Nil
    show ?case by simp
  next
    case (Cons x xs)
    from Cons.IH[of "max a x"] show ?case by (auto simp: max_def split: if_splits)
  qed
  from this[of 0 "map (\<lambda>mux. num_inputs (mux_graph mux)) mux_lib"]
  have "max_mux_size mux_lib = 0 \<or>
        max_mux_size mux_lib \<in> (\<lambda>mux. num_inputs (mux_graph mux)) ` set mux_lib"
    by (simp add: max_mux_size_def)
  moreover assume "mux_lib \<noteq> []"
  then obtain m where m: "m \<in> set mux_lib" by (cases mux_lib) auto
  ultimately show ?thesis
    using max_mux_size_upper[of mux_lib] by (metis image_eqI le_zero_eq)
qed

lemma add_module_distinct:
  assumes "add_module mm n = (mm', r)" and "distinct (map mod_name mm)"
  shows "distinct (map mod_name mm')"
proof (cases "find_module mm n")
  case None
  with assms(1) have "mm' = mm @ [\<lparr>mod_name = n, mod_ports = [], mod_children = []\<rparr>]"
    by (simp add: add_module_def)
  moreover from None have "n \<notin> mod_name ` set mm" by (simp add: find_module_None)
  ultimately show ?thesis using assms(2) by simp
next
  case (Some i)
  with assms show ?thesis by (simp add: add_module_def)
qed

lemma branch_module_success:
  assumes "generate_verilog_mux_branch_module nm lib model mux_size g st = Inr st'"
  shows "declared_names (written (fp st')) =
           declared_names (written (fp st)) @
           (if emits lib model then [nm lib model mux_size (num_inputs g)] else []) \<and>
         (distinct (map mod_name (module_manager st)) \<longrightarrow>
          distinct (map mod_name (module_manager st')))"
proof (cases "design_tech_type lib model")
  case SPICE_MODEL_DESIGN_CMOS
  with assms have run: "generate_verilog_cmos_mux_branch_module lib model
      (nm lib model mux_size (num_inputs g)) g (dump_structural_verilog lib model) st = Inr st'"
    by (simp add: generate_verilog_mux_branch_module_def)
  show ?thesis
  proof (cases "model_type lib (pass_gate_logic_model lib model) = SPICE_MODEL_GATE")
    case True
    with run have "st' = st" by (auto simp: cmos_module_gate split: if_splits)
    with True show ?thesis by (simp add: emits_def)
  next
    case False
    from cmos_module_success[OF False run] obtain mm1 mid ts where
      am: "add_module (module_manager st) (nm lib model mux_size (num_inputs g)) = (mm1, Some mid)"
      and wr: "written (fp st') = written (fp st) @
             ModuleDeclaration mid (add_ports mm1 mid (branch_module_ports lib model g) ! mid) #
             Comment (if dump_structural_verilog lib model
                      then ''---- Structure-level description -----''
                      else ''---- Behavioral-level description -----'') #
             ts @ [ModuleEnd (nm lib model mux_size (num_inputs g))]"
      and ts: "filter is_declaration ts = []"
      and names: "map mod_name (module_manager st') = map mod_name mm1"
      by blast
    from add_module_result[OF am] have lt: "mid < length mm1"
      and nm: "mod_name (mm1 ! mid) = nm lib model mux_size (num_inputs g)" by simp_all
    have "mod_name (add_ports mm1 mid (branch_module_ports lib model g) ! mid) =
          nm lib model mux_size (num_inputs g)"
      using lt nm by (simp add: add_ports_def)
    then have "declared_names (written (fp st')) = declared_names (written (fp st)) @
        [nm lib model mux_size (num_inputs g)]"
      unfolding wr using ts by (simp add: declared_names_def)
    moreover have "distinct (map mod_name (module_manager st)) \<longrightarrow>
          distinct (map mod_name (module_manager st'))"
      unfolding names using add_module_distinct[OF am] by simp
    ultimately show ?thesis using False SPICE_MODEL_DESIGN_CMOS by (simp add: emits_def)
  qed
next
  case SPICE_MODEL_DESIGN_RRAM
  with assms show ?thesis by (simp add: generate_verilog_mux_branch_module_def emits_def)
next
  case (SPICE_MODEL_DESIGN_OTHER v)
  with assms show ?thesis by (simp add: generate_verilog_mux_branch_module_def)
qed

lemma for_each_accumulate:
  assumes "\<And>x s s'. x \<in> set xs \<Longrightarrow> f x s = Inr s' \<Longrightarrow> h s' = h s @ c x"
    and "for_each f xs s = Inr s'"
  shows "h s' = h s @ concat (map c xs)"
  using assms
proof (induction xs arbitrary: s)
  case Nil
  then show ?case by simp
next
  case (Cons x xs)
  from Cons.prems(2) obtain s1 where s1: "f x s = Inr s1" and rest: "for_each f xs s1 = Inr s'"
    by (auto split: sum.splits)
  have "h s1 = h s @ c x" using Cons.prems(1) s1 by simp
  moreover have "h s' = h s1 @ concat (map c xs)"
    using Cons.IH[OF _ rest] Cons.prems(1) by simp
  ultimately show ?case by simp
qed

lemma for_each_invariant:
  assumes "\<And>x s s'. x \<in> set xs \<Longrightarrow> P s \<Longrightarrow> f x s = Inr s' \<Longrightarrow> P s'"
    and "P s" and "for_each f xs s = Inr s'"
  shows "P s'"
  using assms
proof (induction xs arbitrary: s)
  case Nil
  then show ?case by simp
next
  case (Cons x xs)
  from Cons.prems(3) obtain s1 where s1: "f x s = Inr s1" and rest: "for_each f xs s1 = Inr s'"
    by (auto split: sum.splits)
  have "P s1" using Cons.prems(1)[of x s s1] Cons.prems(2) s1 by simp
  moreover have "\<And>y t t'. y \<in> set xs \<Longrightarrow> P t \<Longrightarrow> f y t = Inr t' \<Longrightarrow> P t'"
    using Cons.prems(1) by (meson list.set_intros(2))
  ultimately show ?case using Cons.IH[OF _ _ rest] by blast
qed

lemma process_library_success:
  assumes "process_library nm dec lib mux_lib st = Inr st'"
  shows "declared_names (written (fp st')) =
           declared_names (written (fp st)) @ emitted_module_names nm dec lib mux_lib \<and>
         (distinct (map mod_name (module_manager st)) \<longrightarrow>
          distinct (map mod_name (module_manager st')))"
proof -
  let ?inner = "\<lambda>mux. for_each (generate_verilog_mux_branch_module nm lib (mux_circuit_model mux)
                    (num_inputs (mux_graph mux))) (dec (mux_graph mux))"
  let ?h = "\<lambda>s. declared_names (written (fp s))"
  let ?c = "\<lambda>mux branch. if emits lib (mux_circuit_model mux)
           then [nm lib (mux_circuit_model mux) (num_inputs (mux_graph mux)) (num_inputs branch)]
           else []"
  have inner_names: "?h s' = ?h s @ concat (map (?c mux) (dec (mux_graph mux)))"
    if "?inner mux s = Inr s'" for mux s s'
    by (rule for_each_accumulate[OF _ that]) (simp add: branch_module_success)
  have inner_distinct: "distinct (map mod_name (module_manager s'))"
    if "?inner mux s = Inr s'" and "distinct (map mod_name (module_manager s))" for mux s s'
    by (rule for_each_invariant[where P = "\<lambda>s. distinct (map mod_name (module_manager s))",
          OF _ that(2) that(1)]) (simp add: branch_module_success)
  from assms have run: "for_each ?inner mux_lib st = Inr st'" by (simp add: process_library_def)
  have "?h st' = ?h st @ concat (map (\<lambda>mux. concat (map (?c mux) (dec (mux_graph mux)))) mux_lib)"
    by (rule for_each_accumulate[OF _ run]) (rule inner_names)
  moreover have "distinct (map mod_name (module_manager st'))"
    if "distinct (map mod_name (module_manager st))"
    by (rule for_each_invariant[where P = "\<lambda>s. distinct (map mod_name (module_manager s))",
          OF _ that run]) (rule inner_distinct)
  ultimately show ?thesis by (simp add: emitted_module_names_def)
qed

lemma register_names_Nil: "register_names ns [] = ns"
  by (simp add: register_names_def)

lemma register_names_append:
  "register_names ns (xs @ ys) = register_names (register_names ns xs) ys"
  by (simp add: register_names_def)

lemma set_register_names: "set (register_names ns xs) = set ns \<union> set xs"
  unfolding register_names_def
  by (induction xs arbitrary: ns) auto

lemma add_module_names:
  assumes "add_module mm n = (mm', r)"
  shows "map mod_name mm' = register_names (map mod_name mm) [n]"
proof (cases "find_module mm n")
  case None
  with assms have "mm' = mm @ [\<lparr>mod_name = n, mod_ports = [], mod_children = []\<rparr>]"
    by (simp add: add_module_def)
  moreover from None have "n \<notin> mod_name ` set mm" by (simp add: find_module_None)
  ultimately show ?thesis by (simp add: register_names_def)
next
  case (Some i)
  with assms have "mm' = mm" by (simp add: add_module_def)
  moreover from find_module_Some[OF Some] have "n \<in> mod_name ` set mm"
    by (metis imageI nth_mem)
  ultimately show ?thesis by (simp add: register_names_def)
qed

lemma branch_module_registers:
  assumes "generate_verilog_mux_branch_module nm lib model mux_size g st = Inr st'"
  shows "map mod_name (module_manager st') =
         register_names (map mod_name (module_manager st))
           (if emits lib model then [nm lib model mux_size (num_inputs g)] else [])"
proof (cases "design_tech_type lib model")
  case SPICE_MODEL_DESIGN_CMOS
  with assms have run: "generate_verilog_cmos_mux_branch_module lib model
      (nm lib model mux_size (num_inputs g)) g (dump_structural_verilog lib model) st = Inr st'"
    by (simp add: generate_verilog_mux_branch_module_def)
  show ?thesis
  proof (cases "model_type lib (pass_gate_logic_model lib model) = SPICE_MODEL_GATE")
    case True
    with run have "st' = st" by (auto simp: cmos_module_gate split: if_splits)
    with True show ?thesis by (simp add: emits_def register_names_Nil)
  next
    case False
    from cmos_module_success[OF False run] obtain mm1 mid where
      am: "add_module (module_manager st) (nm lib model mux_size (num_inputs g)) = (mm1, Some mid)"
      and names: "map mod_name (module_manager st') = map mod_name mm1"
      by blast
    from add_module_names[OF am] names False SPICE_MODEL_DESIGN_CMOS show ?thesis
      by (simp add: emits_def)
  qed
next
  case SPICE_MODEL_DESIGN_RRAM
  with assms show ?thesis
    by (simp add: generate_verilog_mux_branch_module_def emits_def register_names_Nil)
next
  case (SPICE_MODEL_DESIGN_OTHER v)
  with assms show ?thesis by (simp add: generate_verilog_mux_branch_module_def)
qed

lemma for_each_registers:
  assumes "\<And>x s s'. x \<in> set xs \<Longrightarrow> f x s = Inr s' \<Longrightarrow> k s' = register_names (k s) (c x)"
    and "for_each f xs s = Inr s'"
  shows "k s' = register_names (k s) (concat (map c xs))"
  using assms
proof (induction xs arbitrary: s)
  case Nil
  then show ?case by (simp add: register_names_Nil)
next
  case (Cons x xs)
  from Cons.prems(2) obtain s1 where s1: "f x s = Inr s1" and rest: "for_each f xs s1 = Inr s'"
    by (auto split: sum.splits)
  have "k s1 = register_names (k s) (c x)" using Cons.prems(1) s1 by simp
  moreover have "k s' = register_names (k s1) (concat (map c xs))"
    using Cons.IH[OF _ rest] Cons.prems(1) by simp
  ultimately show ?case by (simp add: register_names_append)
qed

lemma process_library_registers:
  assumes "process_library nm dec lib mux_lib st = Inr st'"
  shows "map mod_name (module_manager st') =
         register_names (map mod_name (module_manager st)) (emitted_module_names nm dec lib mux_lib)"
proof -
  let ?inner = "\<lambda>mux. for_each (generate_verilog_mux_branch_module nm lib (mux_circuit_model mux)
                    (num_inputs (mux_graph mux))) (dec (mux_graph mux))"
  let ?k = "\<lambda>s. map mod_name (module_manager s)"
  let ?c = "\<lambda>mux branch. if emits lib (mux_circuit_model mux)
           then [nm lib (mux_circuit_model mux) (num_inputs (mux_graph mux)) (num_inputs branch)]
           else []"
  have inner: "?k s' = register_names (?k s) (concat (map (?c mux) (dec (mux_graph mux))))"
    if "?inner mux s = Inr s'" for mux s s'
    by (rule for_each_registers[OF _ that]) (simp add: branch_module_registers)
  from assms have run: "for_each ?inner mux_lib st = Inr st'" by (simp add: process_library_def)
  have "?k st' = register_names (?k st)
          (concat (map (\<lambda>mux. concat (map (?c mux) (dec (mux_graph mux)))) mux_lib))"
    by (rule for_each_registers[OF _ run]) (rule inner)
  then show ?thesis by (simp add: emitted_module_names_def)
qed

section \<open>Facts about the running example\<close>

lemmas ex_defs = ex_circuit_lib_def ex_edges_def ex_mux_graph_def ex_tgate_module_def ex_state_def

lemmas ex_defs2 = ex_gate_lib_def ex_two_output_graph_def ex_other_tech_lib_def ex_two_sram_lib_def
  ex_subckt_name_def ex_rram_lib_def ex_rram_gate_lib_def
  ex_mux_def ex_decompose_def ex_try_update_def ex_world_def

text \<open>Unfolding the generator on the example.\<close>

lemmas run_defs = print_verilog_submodule_muxes_def fstream_open_def check_file_handler_def
  leave_stream_def print_verilog_file_header_def print_verilog_include_defines_preproc_file_def
  generate_verilog_mux_branch_module_def generate_verilog_cmos_mux_branch_module_def
  generate_verilog_cmos_mux_branch_body_structural_def structural_input_iter_def
  structural_output_iter_def generate_verilog_cmos_mux_branch_body_behavioral_def
  behavioral_input_iter_def behavioral_output_iter_def print_verilog_comment_def
  print_verilog_module_declaration_def print_verilog_module_instance_def
  print_verilog_module_end_def emit_def add_module_def add_port_def add_child_module_def
  find_edges_def find_edge_mem_def is_edge_use_inv_mem_def num_inputs_def num_outputs_def
  BasicPort_sized_def BasicPort_range_def max_mux_size_def Let_def

lemma ex_pass_returns:
  "\<not> isl (print_verilog_submodule_muxes ex_subckt_name ex_decompose ex_try_update ''muxes.v''
            [ex_mux] (ex_circuit_lib True) ''verilog/'' ''sub/'' ex_world)"
  by (simp add: run_defs ex_defs ex_defs2 to_string_digit digit_char_def)

lemma ex_pass_twice_returns:
  "\<not> isl (print_verilog_submodule_muxes ex_subckt_name ex_decompose ex_try_update ''muxes.v''
            [ex_mux, ex_mux] (ex_circuit_lib True) ''verilog/'' ''sub/'' ex_world)"
  by (simp add: run_defs ex_defs ex_defs2 to_string_digit digit_char_def)

section \<open>Structural emission\<close>

text \<open>
  Claim C3. In structural mode, for every single-level, single-output branch graph (with
  at most one edge between an input and the output, the pass-gate module registered and
  having three inputs and one output), the module body holds exactly one pass-gate
  instance per input connected to the output by an edge, and none for an unconnected
  input. The instance of an edge wires the slice \<open>in[input_id]\<close> to the data input of the
  pass gate, the slice \<open>out[output_id]\<close> to its data output, and \<open>mem[m]\<close>,
  \<open>mem_inv[m]\<close> to its two control terminals in that order, swapped when the edge is
  inverted (\<open>tgate_instance\<close>, \<open>tgate_port_map\<close>). Each instantiation records the
  pass-gate module as a child of the branch module.
\<close>

theorem structural_branch_instances:
  assumes "model_type lib (pass_gate_logic_model lib model) \<noteq> SPICE_MODEL_GATE"
    and "is_open (fp st)"
    and "outputs g = [o']" and "num_levels g = 1"
    and "\<forall>i\<in>set (inputs g). length (find_edges g i o') \<le> 1"
    and "find_module (module_manager st) (model_name lib (pass_gate_logic_model lib model)) = Some tid"
    and "length (model_ports_by_type lib (pass_gate_logic_model lib model) SPICE_MODEL_PORT_INPUT True) = 3"
    and "length (model_ports_by_type lib (pass_gate_logic_model lib model) SPICE_MODEL_PORT_OUTPUT True) = 1"
    and "add_module (module_manager st) name = (mm1, Some mid)"
  shows "generate_verilog_cmos_mux_branch_module lib model name g True st =
         Inr (st\<lparr>module_manager :=
                    ((\<lambda>mm. add_child_module mm mid tid) ^^
                       length (filter (\<lambda>i. find_edges g i o' \<noteq> []) (inputs g)))
                      (add_ports mm1 mid (branch_module_ports lib model g)),
                  fp := (fp st)\<lparr>written := written (fp st) @
                          [ModuleDeclaration mid
                             (add_ports mm1 mid (branch_module_ports lib model g) ! mid),
                           Comment ''---- Structure-level description -----''] @
                          concat (map (\<lambda>i. map (tgate_instance lib
                                                   (pass_gate_logic_model lib model) mid tid g i o')
                                               (find_edges g i o')) (inputs g)) @
                          [ModuleEnd name]\<rparr>\<rparr>)"
proof -
  have no: "num_outputs g = 1" using assms(3) by (simp add: num_outputs_def)
  have op: "is_open (fp (declared lib model g mm1 mid st))"
    using assms(2) by (simp add: declared_def)
  note fm = declared_find_module[OF assms(9) assms(6), of lib model g mid]
  show ?thesis
    unfolding cmos_module_structural[OF assms(1,2) no assms(4,9)]
      structural_body[OF op fm assms(7,8,3,5)]
    by (simp add: length_concat_le1[OF assms(5)] print_verilog_module_end_def emit_def
        declared_def)
qed

text \<open>The 4:1 branch of the specification gives four instances; the second one, on the
  inverted edge, has \<open>mem_inv\<close> on the first control terminal.\<close>

theorem structural_branch_instances_witness:
  "outputs ex_mux_graph = [4] \<and> num_levels ex_mux_graph = 1 \<and> is_open (fp ex_state) \<and>
   find_module (module_manager ex_state) ''TGATE'' = Some 0 \<and>
   map (tok_wires [''in'', ''out'', ''sel'', ''selb''])
     (written (fp (state_of (generate_verilog_cmos_mux_branch_module (ex_circuit_lib True) 0
                               ''mux_size4_basis'' ex_mux_graph True ex_state)))) =
     [[], [],
      [Some (BasicPort_range ''in'' 0 0), Some (BasicPort_range ''out'' 0 0),
       Some (BasicPort_range ''mem'' 0 0), Some (BasicPort_range ''mem_inv'' 0 0)],
      [Some (BasicPort_range ''in'' 1 1), Some (BasicPort_range ''out'' 0 0),
       Some (BasicPort_range ''mem_inv'' 1 1), Some (BasicPort_range ''mem'' 1 1)],
      [Some (BasicPort_range ''in'' 2 2), Some (BasicPort_range ''out'' 0 0),
       Some (BasicPort_range ''mem'' 2 2), Some (BasicPort_range ''mem_inv'' 2 2)],
      [Some (BasicPort_range ''in'' 3 3), Some (BasicPort_range ''out'' 0 0),
       Some (BasicPort_range ''mem'' 3 3), Some (BasicPort_range ''mem_inv'' 3 3)],
      []] \<and>
   mod_children (module_manager (state_of (generate_verilog_cmos_mux_branch_module
                   (ex_circuit_lib True) 0 ''mux_size4_basis'' ex_mux_graph True ex_state)) ! 1) = [0]"
  using structural_branch_instances[of "ex_circuit_lib True" 0 ex_state ex_mux_graph 4 0
      "''mux_size4_basis''"
      "[ex_tgate_module, \<lparr>mod_name = ''mux_size4_basis'', mod_ports = [], mod_children = []\<rparr>]" 1]
  by (simp add: ex_defs find_edges_def add_module_def tgate_instance_def tgate_port_map_def
      BasicPort_range_def tok_wires_def add_child_module_def add_ports_def
      branch_module_ports_def numeral_3_eq_3)

section \<open>Behavioral emission\<close>

text \<open>
  Claim C4. In behavioral mode, for every single-level, single-output branch graph with
  \<open>E\<close> edges and memory width \<open>W\<close> (satisfying the invariant of multiplexer graphs, the
  circuit model having one configuration port that is not a mode-select port, with a
  one-digit default value), the case table has exactly \<open>E\<close> entries besides the default
  one. The entry of an edge (\<open>case_entry\<close>) is a literal of \<open>W\<close> bits, each the shared
  default value except the bit at the edge's memory bit, which is \<open>1\<close>, or \<open>0\<close> when
  the edge is inverted, and it assigns the input slice of the edge's input to the output
  register. After the entries (\<open>behavioral_tail\<close>) the default case assigns \<open>z\<close> to every
  bit of the output register, and the register is assigned to the output port.
\<close>

theorem behavioral_case_table:
  assumes "model_type lib (pass_gate_logic_model lib model) \<noteq> SPICE_MODEL_GATE"
    and "is_open (fp st)"
    and "outputs g = [o']" and "num_levels g = 1"
    and "mux_graph_invariant g"
    and "filter (\<lambda>port. \<not> port_is_mode_select lib port)
           (model_ports_by_type lib model SPICE_MODEL_PORT_SRAM True) = [p]"
    and "port_default_value lib p < 10"
    and "add_module (module_manager st) name = (mm1, Some mid)"
  shows "generate_verilog_cmos_mux_branch_module lib model name g False st =
         Inr (st\<lparr>module_manager := add_ports mm1 mid (branch_module_ports lib model g),
                  fp := (fp st)\<lparr>written := written (fp st) @
                          [ModuleDeclaration mid
                             (add_ports mm1 mid (branch_module_ports lib model g) ! mid)] @
                          behavioral_head g @
                          concat (concat (map (\<lambda>i. map (case_entry (num_memory_bits g)
                                                           (digit_char (port_default_value lib p)) g i)
                                                       (find_edges g i o')) (inputs g))) @
                          behavioral_tail g @
                          [ModuleEnd name]\<rparr>\<rparr>) \<and>
         length (concat (map (\<lambda>i. map (case_entry (num_memory_bits g)
                                          (digit_char (port_default_value lib p)) g i)
                                      (find_edges g i o')) (inputs g))) = length (edges g)"
proof -
  have no: "num_outputs g = 1" using assms(3) by (simp add: num_outputs_def)
  have op: "is_open (fp (declared lib model g mm1 mid st))"
    using assms(2) by (simp add: declared_def)
  have le: "\<forall>i\<in>set (inputs g). length (find_edges g i o') \<le> 1"
    using assms(3,5) by (simp add: mux_graph_invariant_def)
  have mem: "\<forall>i\<in>set (inputs g). \<forall>e\<in>set (find_edges g i o'). edge_mem e < num_memory_bits g"
    using assms(5) by (simp add: mux_graph_invariant_def find_edges_def)
  have "length (concat (map (\<lambda>i. map (case_entry (num_memory_bits g)
                                          (digit_char (port_default_value lib p)) g i)
                                      (find_edges g i o')) (inputs g))) =
        length (concat (map (\<lambda>i. find_edges g i o') (inputs g)))"
    by (simp add: length_concat comp_def)
  then have cnt: "length (concat (map (\<lambda>i. map (case_entry (num_memory_bits g)
                                          (digit_char (port_default_value lib p)) g i)
                                      (find_edges g i o')) (inputs g))) = length (edges g)"
    using invariant_edge_count[OF assms(5,3)] by simp
  have run: "generate_verilog_cmos_mux_branch_module lib model name g False st =
         Inr (print_verilog_module_end name
                (emit (behavioral_head g @
                    concat (concat (map (\<lambda>i. map (case_entry (num_memory_bits g)
                                                     (digit_char (port_default_value lib p)) g i)
                                                 (find_edges g i o')) (inputs g))) @
                    behavioral_tail g) (declared lib model g mm1 mid st)))"
    unfolding cmos_module_behavioral[OF assms(1,2) no assms(4,8)]
    by (simp add: assms(6) to_string_digit[OF assms(7)] behavioral_body[OF op assms(3) le mem])
  show ?thesis
    unfolding run using cnt
    by (simp add: print_verilog_module_end_def emit_def declared_def)
qed

text \<open>The 4:1 branch of the specification with default value \<open>0\<close>: four entries,
  \<open>1000\<close>, \<open>0000\<close> (the inverted edge), \<open>0010\<close> and \<open>0001\<close>.\<close>

theorem behavioral_case_table_witness:
  "outputs ex_mux_graph = [4] \<and> num_levels ex_mux_graph = 1 \<and> is_open (fp ex_state) \<and>
   mux_graph_invariant ex_mux_graph \<and> port_default_value (ex_circuit_lib False) 20 < 10 \<and>
   length (edges ex_mux_graph) = 4 \<and>
   written (fp (state_of (generate_verilog_cmos_mux_branch_module (ex_circuit_lib False) 0
                            ''mux_size4_basis'' ex_mux_graph False ex_state))) =
     [ModuleDeclaration 1
        \<lparr>mod_name = ''mux_size4_basis'',
           mod_ports = branch_module_ports (ex_circuit_lib False) 0 ex_mux_graph,
           mod_children = []\<rparr>] @
     behavioral_head ex_mux_graph @
     [Str (tab @ tab), Num 4, Str [CHR 0x27, CHR ''b''], Str ''1000'', Str '': '',
      Port VERILOG_PORT_CONKT (BasicPort_sized ''out_reg'' 1), Str '' <= '',
      Port VERILOG_PORT_CONKT (BasicPort_range ''in'' 0 0), Str '';'', Endl,
      Str (tab @ tab), Num 4, Str [CHR 0x27, CHR ''b''], Str ''0000'', Str '': '',
      Port VERILOG_PORT_CONKT (BasicPort_sized ''out_reg'' 1), Str '' <= '',
      Port VERILOG_PORT_CONKT (BasicPort_range ''in'' 1 1), Str '';'', Endl,
      Str (tab @ tab), Num 4, Str [CHR 0x27, CHR ''b''], Str ''0010'', Str '': '',
      Port VERILOG_PORT_CONKT (BasicPort_sized ''out_reg'' 1), Str '' <= '',
      Port VERILOG_PORT_CONKT (BasicPort_range ''in'' 2 2), Str '';'', Endl,
      Str (tab @ tab), Num 4, Str [CHR 0x27, CHR ''b''], Str ''0001'', Str '': '',
      Port VERILOG_PORT_CONKT (BasicPort_sized ''out_reg'' 1), Str '' <= '',
      Port VERILOG_PORT_CONKT (BasicPort_range ''in'' 3 3), Str '';'', Endl] @
     behavioral_tail ex_mux_graph @
     [ModuleEnd ''mux_size4_basis'']"
  using behavioral_case_table[of "ex_circuit_lib False" 0 ex_state ex_mux_graph 4 20
      "''mux_size4_basis''"
      "[ex_tgate_module, \<lparr>mod_name = ''mux_size4_basis'', mod_ports = [], mod_children = []\<rparr>]" 1]
  by (simp add: ex_defs find_edges_def add_module_def mux_graph_invariant_def case_entry_def
      digit_char_def add_ports_def num_outputs_def BasicPort_range_def BasicPort_sized_def
      eval_nat_numeral)

section \<open>The interface of a branch module\<close>

text \<open>
  Claim C10. For every branch graph that passes the single-output, single-level check on
  the CMOS path, the ports registered for the module are the same in structural and in
  behavioral mode (the theorem holds for either value of the mode flag, and whether the
  body then returns or aborts) and are added in a fixed order: one global port per global
  input port of the pass-gate model, then the input port \<open>in\<close> of width
  \<open>num_inputs\<close>, the output port \<open>out\<close> of width \<open>num_outputs\<close>, and the input
  ports \<open>mem\<close> and \<open>mem_inv\<close> of width \<open>num_memory_bits\<close>. The port
  \<open>mem_inv\<close> is declared in behavioral mode too. A module registered under a new name
  has no port before.
\<close>

theorem branch_module_interface:
  assumes "model_type lib (pass_gate_logic_model lib model) \<noteq> SPICE_MODEL_GATE"
    and "is_open (fp st)" and "num_outputs g = 1" and "num_levels g = 1"
    and "add_module (module_manager st) name = (mm1, Some mid)"
  shows "mod_ports (module_manager (state_of
           (generate_verilog_cmos_mux_branch_module lib model name g use_structural_verilog st)) ! mid) =
         mod_ports (mm1 ! mid) @
         map (\<lambda>port. (BasicPort_sized (port_lib_name lib port) (port_size lib port), MODULE_GLOBAL_PORT))
           (model_global_ports_by_type lib (pass_gate_logic_model lib model)
              SPICE_MODEL_PORT_INPUT True) @
         [(BasicPort_sized ''in'' (num_inputs g), MODULE_INPUT_PORT),
          (BasicPort_sized ''out'' (num_outputs g), MODULE_OUTPUT_PORT),
          (BasicPort_sized ''mem'' (num_memory_bits g), MODULE_INPUT_PORT),
          (BasicPort_sized ''mem_inv'' (num_memory_bits g), MODULE_INPUT_PORT)] \<and>
         (find_module (module_manager st) name = None \<longrightarrow> mod_ports (mm1 ! mid) = [])"
proof -
  let ?mm' = "module_manager (state_of
           (generate_verilog_cmos_mux_branch_module lib model name g use_structural_verilog st))"
  from add_module_result[OF assms(5)] have lt: "mid < length mm1" by simp
  from cmos_module_managers[OF assms, of use_structural_verilog]
  have eq: "map mod_ports ?mm' = map mod_ports (add_ports mm1 mid (branch_module_ports lib model g))"
    by simp
  then have "length ?mm' = length mm1"
    using map_eq_imp_length_eq add_ports_length by metis
  with lt have "mod_ports (?mm' ! mid) = map mod_ports ?mm' ! mid" by simp
  also have "\<dots> = mod_ports (add_ports mm1 mid (branch_module_ports lib model g) ! mid)"
    unfolding eq using lt by (simp add: add_ports_length)
  also have "\<dots> = mod_ports (mm1 ! mid) @ branch_module_ports lib model g"
    using lt by (simp add: add_ports_def)
  finally have main: "mod_ports (?mm' ! mid) = mod_ports (mm1 ! mid) @ branch_module_ports lib model g" .
  have fresh: "find_module (module_manager st) name = None \<longrightarrow> mod_ports (mm1 ! mid) = []"
    using assms(5) by (auto simp: add_module_def)
  from main fresh show ?thesis by (simp add: branch_module_ports_def)
qed

theorem branch_module_interface_witness:
  "is_open (fp ex_state) \<and> num_outputs ex_mux_graph = 1 \<and> num_levels ex_mux_graph = 1 \<and>
   mod_ports (module_manager (state_of
     (generate_verilog_cmos_mux_branch_module (ex_circuit_lib False) 0 ''mux_size4_basis''
        ex_mux_graph False ex_state)) ! 1) =
     [(BasicPort_sized ''pwr'' 1, MODULE_GLOBAL_PORT),
      (BasicPort_sized ''in'' 4, MODULE_INPUT_PORT),
      (BasicPort_sized ''out'' 1, MODULE_OUTPUT_PORT),
      (BasicPort_sized ''mem'' 4, MODULE_INPUT_PORT),
      (BasicPort_sized ''mem_inv'' 4, MODULE_INPUT_PORT)]"
  using branch_module_interface[of "ex_circuit_lib False" 0 ex_state ex_mux_graph
      "''mux_size4_basis''"
      "[ex_tgate_module, \<lparr>mod_name = ''mux_size4_basis'', mod_ports = [], mod_children = []\<rparr>]" 1
      False]
  by (simp add: ex_defs add_module_def num_outputs_def num_inputs_def eval_nat_numeral)

section \<open>The shape check\<close>

text \<open>
  Claim C5, amended. For every branch graph passed to CMOS emission with a number of
  outputs other than 1, or a number of levels other than 1, nothing is written and
  nothing is registered: the call ends in the state it started in. When moreover the
  pass-gate model is not a logic gate and the stream is open, the failed check of the
  shape aborts generation. (With a logic-gate pass-gate model the call returns before
  the check; see the counterexample.)
\<close>

theorem shape_violation:
  assumes "num_outputs g \<noteq> 1 \<or> num_levels g \<noteq> 1"
  shows "state_of (generate_verilog_cmos_mux_branch_module lib model name g flag st) = st \<and>
         (model_type lib (pass_gate_logic_model lib model) \<noteq> SPICE_MODEL_GATE \<and> is_open (fp st) \<longrightarrow>
          generate_verilog_cmos_mux_branch_module lib model name g flag st =
            Inl (AssertionFailed (if num_outputs g \<noteq> 1 then ''1 == num_outputs''
                                  else ''1 == mux_graph.num_levels()''), st))"
proof (cases "model_type lib (pass_gate_logic_model lib model) = SPICE_MODEL_GATE")
  case True
  then show ?thesis by (simp add: cmos_module_gate)
next
  case False
  show ?thesis
  proof (cases "is_open (fp st)")
    case True
    with False cmos_module_shape[OF False True assms] show ?thesis by simp
  next
    case closed: False
    with False show ?thesis by (simp add: cmos_module_closed)
  qed
qed

theorem shape_violation_witness:
  "num_outputs ex_two_output_graph = 2 \<and>
   generate_verilog_cmos_mux_branch_module (ex_circuit_lib True) 0 ''mux_size4_basis''
     ex_two_output_graph True ex_state = Inl (AssertionFailed ''1 == num_outputs'', ex_state)"
  using shape_violation[of ex_two_output_graph "ex_circuit_lib True" 0 "''mux_size4_basis''" True
      ex_state]
  by (simp add: ex_defs ex_defs2 num_outputs_def)

text \<open>Claim C5 as stated fails: with a pass-gate model that is a 2:1 logic-gate
  multiplexer, a graph with two outputs is skipped silently, no violation is raised.\<close>

theorem shape_violation_counterexample:
  "num_outputs ex_two_output_graph = 2 \<and>
   generate_verilog_cmos_mux_branch_module ex_gate_lib 0 ''mux_size4_basis''
     ex_two_output_graph True ex_state = Inr ex_state"
  by (simp add: ex_defs ex_defs2 num_outputs_def generate_verilog_cmos_mux_branch_module_def)

section \<open>Dispatch on the design technology\<close>

text \<open>
  Claim C6. Branch-module generation dispatches on two design technologies of the
  circuit model. For CMOS it emits a module chosen by the model's flag
  \<open>dump_structural_verilog\<close>: with the flag set, the module declaration followed by
  the structural body (one pass-gate instance per connected input) and the module end,
  the pass-gate module recorded as a child; with the flag cleared, the module declaration
  followed by the behavioral body (the case table) and the module end. (Each under the
  preconditions of the respective mode: a pass-gate model that is not a logic gate, an
  open stream, a single-output, single-level graph, and for structural mode the
  registered pass-gate module with three inputs and one output, for behavioral mode one
  configuration port with a one-digit default value.) For RRAM nothing is written and
  nothing is registered: the state is returned as it was. Any other design technology is
  a fatal error.
\<close>

theorem technology_dispatch:
  "(design_tech_type lib model = SPICE_MODEL_DESIGN_CMOS \<and>
    dump_structural_verilog lib model \<and>
    model_type lib (pass_gate_logic_model lib model) \<noteq> SPICE_MODEL_GATE \<and>
    is_open (fp st) \<and> outputs g = [o'] \<and> num_levels g = 1 \<and>
    (\<forall>i\<in>set (inputs g). length (find_edges g i o') \<le> 1) \<and>
    find_module (module_manager st) (model_name lib (pass_gate_logic_model lib model)) = Some tid \<and>
    length (model_ports_by_type lib (pass_gate_logic_model lib model) SPICE_MODEL_PORT_INPUT True) = 3 \<and>
    length (model_ports_by_type lib (pass_gate_logic_model lib model) SPICE_MODEL_PORT_OUTPUT True) = 1 \<and>
    add_module (module_manager st) (nm lib model mux_size (num_inputs g)) = (mm1, Some mid) \<longrightarrow>
      generate_verilog_mux_branch_module nm lib model mux_size g st =
        Inr (st\<lparr>module_manager :=
                   ((\<lambda>mm. add_child_module mm mid tid) ^^
                      length (filter (\<lambda>i. find_edges g i o' \<noteq> []) (inputs g)))
                     (add_ports mm1 mid (branch_module_ports lib model g)),
                 fp := (fp st)\<lparr>written := written (fp st) @
                         [ModuleDeclaration mid
                            (add_ports mm1 mid (branch_module_ports lib model g) ! mid),
                          Comment ''---- Structure-level description -----''] @
                         concat (map (\<lambda>i. map (tgate_instance lib
                                                  (pass_gate_logic_model lib model) mid tid g i o')
                                              (find_edges g i o')) (inputs g)) @
                         [ModuleEnd (nm lib model mux_size (num_inputs g))]\<rparr>\<rparr>)) \<and>
   (design_tech_type lib model = SPICE_MODEL_DESIGN_CMOS \<and>
    \<not> dump_structural_verilog lib model \<and>
    model_type lib (pass_gate_logic_model lib model) \<noteq> SPICE_MODEL_GATE \<and>
    is_open (fp st) \<and> outputs g = [o'] \<and> num_levels g = 1 \<and> mux_graph_invariant g \<and>
    filter (\<lambda>port. \<not> port_is_mode_select lib port)
      (model_ports_by_type lib model SPICE_MODEL_PORT_SRAM True) = [p] \<and>
    port_default_value lib p < 10 \<and>
    add_module (module_manager st) (nm lib model mux_size (num_inputs g)) = (mm1, Some mid) \<longrightarrow>
      generate_verilog_mux_branch_module nm lib model mux_size g st =
        Inr (st\<lparr>module_manager := add_ports mm1 mid (branch_module_ports lib model g),
                 fp := (fp st)\<lparr>written := written (fp st) @
                         [ModuleDeclaration mid
                            (add_ports mm1 mid (branch_module_ports lib model g) ! mid)] @
                         behavioral_head g @
                         concat (concat (map (\<lambda>i. map (case_entry (num_memory_bits g)
                                                          (digit_char (port_default_value lib p)) g i)
                                                      (find_edges g i o')) (inputs g))) @
                         behavioral_tail g @
                         [ModuleEnd (nm lib model mux_size (num_inputs g))]\<rparr>\<rparr>)) \<and>
   (design_tech_type lib model = SPICE_MODEL_DESIGN_RRAM \<longrightarrow>
      generate_verilog_mux_branch_module nm lib model mux_size g st = Inr st) \<and>
   (design_tech_type lib model \<noteq> SPICE_MODEL_DESIGN_CMOS \<and>
    design_tech_type lib model \<noteq> SPICE_MODEL_DESIGN_RRAM \<longrightarrow>
      generate_verilog_mux_branch_module nm lib model mux_size g st =
        Inl (InvalidDesignTech (model_name lib model), st))"
proof (intro conjI impI)
  let ?name = "nm lib model mux_size (num_inputs g)"
  assume a: "design_tech_type lib model = SPICE_MODEL_DESIGN_CMOS \<and>
    dump_structural_verilog lib model \<and>
    model_type lib (pass_gate_logic_model lib model) \<noteq> SPICE_MODEL_GATE \<and>
    is_open (fp st) \<and> outputs g = [o'] \<and> num_levels g = 1 \<and>
    (\<forall>i\<in>set (inputs g). length (find_edges g i o') \<le> 1) \<and>
    find_module (module_manager st) (model_name lib (pass_gate_logic_model lib model)) = Some tid \<and>
    length (model_ports_by_type lib (pass_gate_logic_model lib model) SPICE_MODEL_PORT_INPUT True) = 3 \<and>
    length (model_ports_by_type lib (pass_gate_logic_model lib model) SPICE_MODEL_PORT_OUTPUT True) = 1 \<and>
    add_module (module_manager st) ?name = (mm1, Some mid)"
  then have tech: "design_tech_type lib model = SPICE_MODEL_DESIGN_CMOS"
    and flag: "dump_structural_verilog lib model"
    and ng: "model_type lib (pass_gate_logic_model lib model) \<noteq> SPICE_MODEL_GATE"
    and op: "is_open (fp st)" and out: "outputs g = [o']" and lev: "num_levels g = 1"
    and le: "\<forall>i\<in>set (inputs g). length (find_edges g i o') \<le> 1"
    and fm: "find_module (module_manager st) (model_name lib (pass_gate_logic_model lib model)) = Some tid"
    and l3: "length (model_ports_by_type lib (pass_gate_logic_model lib model) SPICE_MODEL_PORT_INPUT True) = 3"
    and l1: "length (model_ports_by_type lib (pass_gate_logic_model lib model) SPICE_MODEL_PORT_OUTPUT True) = 1"
    and am: "add_module (module_manager st) ?name = (mm1, Some mid)"
    by simp_all
  have no: "num_outputs g = 1" using out by (simp add: num_outputs_def)
  have opd: "is_open (fp (declared lib model g mm1 mid st))" using op by (simp add: declared_def)
  note fmd = declared_find_module[OF am fm, of lib model g mid]
  have eq: "generate_verilog_mux_branch_module nm lib model mux_size g st =
      generate_verilog_cmos_mux_branch_module lib model ?name g True st"
    using tech flag by (simp add: generate_verilog_mux_branch_module_def)
  show "generate_verilog_mux_branch_module nm lib model mux_size g st =
        Inr (st\<lparr>module_manager :=
                   ((\<lambda>mm. add_child_module mm mid tid) ^^
                      length (filter (\<lambda>i. find_edges g i o' \<noteq> []) (inputs g)))
                     (add_ports mm1 mid (branch_module_ports lib model g)),
                 fp := (fp st)\<lparr>written := written (fp st) @
                         [ModuleDeclaration mid
                            (add_ports mm1 mid (branch_module_ports lib model g) ! mid),
                          Comment ''---- Structure-level description -----''] @
                         concat (map (\<lambda>i. map (tgate_instance lib
                                                  (pass_gate_logic_model lib model) mid tid g i o')
                                              (find_edges g i o')) (inputs g)) @
                         [ModuleEnd ?name]\<rparr>\<rparr>)"
    unfolding eq cmos_module_structural[OF ng op no lev am]
      structural_body[OF opd fmd l3 l1 out le]
    by (simp add: length_concat_le1[OF le] print_verilog_module_end_def emit_def declared_def)
next
  let ?name = "nm lib model mux_size (num_inputs g)"
  assume a: "design_tech_type lib model = SPICE_MODEL_DESIGN_CMOS \<and>
    \<not> dump_structural_verilog lib model \<and>
    model_type lib (pass_gate_logic_model lib model) \<noteq> SPICE_MODEL_GATE \<and>
    is_open (fp st) \<and> outputs g = [o'] \<and> num_levels g = 1 \<and> mux_graph_invariant g \<and>
    filter (\<lambda>port. \<not> port_is_mode_select lib port)
      (model_ports_by_type lib model SPICE_MODEL_PORT_SRAM True) = [p] \<and>
    port_default_value lib p < 10 \<and>
    add_module (module_manager st) ?name = (mm1, Some mid)"
  then have tech: "design_tech_type lib model = SPICE_MODEL_DESIGN_CMOS"
    and flag: "\<not> dump_structural_verilog lib model"
    and ng: "model_type lib (pass_gate_logic_model lib model) \<noteq> SPICE_MODEL_GATE"
    and op: "is_open (fp st)" and out: "outputs g = [o']" and lev: "num_levels g = 1"
    and inv: "mux_graph_invariant g"
    and ports: "filter (\<lambda>port. \<not> port_is_mode_select lib port)
      (model_ports_by_type lib model SPICE_MODEL_PORT_SRAM True) = [p]"
    and dv: "port_default_value lib p < 10"
    and am: "add_module (module_manager st) ?name = (mm1, Some mid)"
    by simp_all
  have no: "num_outputs g = 1" using out by (simp add: num_outputs_def)
  have opd: "is_open (fp (declared lib model g mm1 mid st))" using op by (simp add: declared_def)
  have le: "\<forall>i\<in>set (inputs g). length (find_edges g i o') \<le> 1"
    using out inv by (simp add: mux_graph_invariant_def)
  have mem: "\<forall>i\<in>set (inputs g). \<forall>e\<in>set (find_edges g i o'). edge_mem e < num_memory_bits g"
    using inv by (simp add: mux_graph_invariant_def find_edges_def)
  have eq: "generate_verilog_mux_branch_module nm lib model mux_size g st =
      generate_verilog_cmos_mux_branch_module lib model ?name g False st"
    using tech flag by (simp add: generate_verilog_mux_branch_module_def)
  have run: "generate_verilog_cmos_mux_branch_module lib model ?name g False st =
         Inr (print_verilog_module_end ?name
                (emit (behavioral_head g @
                    concat (concat (map (\<lambda>i. map (case_entry (num_memory_bits g)
                                                     (digit_char (port_default_value lib p)) g i)
                                                 (find_edges g i o')) (inputs g))) @
                    behavioral_tail g) (declared lib model g mm1 mid st)))"
    unfolding cmos_module_behavioral[OF ng op no lev am]
    by (simp add: ports to_string_digit[OF dv] behavioral_body[OF opd out le mem])
  show "generate_verilog_mux_branch_module nm lib model mux_size g st =
        Inr (st\<lparr>module_manager := add_ports mm1 mid (branch_module_ports lib model g),
                 fp := (fp st)\<lparr>written := written (fp st) @
                         [ModuleDeclaration mid
                            (add_ports mm1 mid (branch_module_ports lib model g) ! mid)] @
                         behavioral_head g @
                         concat (concat (map (\<lambda>i. map (case_entry (num_memory_bits g)
                                                          (digit_char (port_default_value lib p)) g i)
                                                      (find_edges g i o')) (inputs g))) @
                         behavioral_tail g @
                         [ModuleEnd ?name]\<rparr>\<rparr>)"
    unfolding eq run
    by (simp add: print_verilog_module_end_def emit_def declared_def)
next
  assume "design_tech_type lib model = SPICE_MODEL_DESIGN_RRAM"
  then show "generate_verilog_mux_branch_module nm lib model mux_size g st = Inr st"
    by (simp add: generate_verilog_mux_branch_module_def)
next
  assume "design_tech_type lib model \<noteq> SPICE_MODEL_DESIGN_CMOS \<and>
    design_tech_type lib model \<noteq> SPICE_MODEL_DESIGN_RRAM"
  then show "generate_verilog_mux_branch_module nm lib model mux_size g st =
        Inl (InvalidDesignTech (model_name lib model), st)"
    by (cases "design_tech_type lib model") (simp_all add: generate_verilog_mux_branch_module_def)
qed

text \<open>The 4:1 branch under the four settings: RRAM, an unrecognised technology, CMOS
  with the structural flag, CMOS with the flag cleared.\<close>

theorem technology_dispatch_witness:
  "generate_verilog_mux_branch_module ex_subckt_name ex_rram_lib 0 4 ex_mux_graph ex_state =
     Inr ex_state \<and>
   generate_verilog_mux_branch_module ex_subckt_name ex_other_tech_lib 0 4 ex_mux_graph ex_state =
     Inl (InvalidDesignTech ''mux'', ex_state) \<and>
   written (fp (state_of (generate_verilog_mux_branch_module ex_subckt_name (ex_circuit_lib True)
                            0 4 ex_mux_graph ex_state))) =
     [ModuleDeclaration 1
        \<lparr>mod_name = ''mux_size4_basis_input4'',
           mod_ports = branch_module_ports (ex_circuit_lib True) 0 ex_mux_graph,
           mod_children = []\<rparr>,
      Comment ''---- Structure-level description -----'',
      ModuleInstance 1 0
        [''in'' \<mapsto> BasicPort_range ''in'' 0 0, ''out'' \<mapsto> BasicPort_range ''out'' 0 0,
         ''sel'' \<mapsto> BasicPort_range ''mem'' 0 0, ''selb'' \<mapsto> BasicPort_range ''mem_inv'' 0 0] True,
      ModuleInstance 1 0
        [''in'' \<mapsto> BasicPort_range ''in'' 1 1, ''out'' \<mapsto> BasicPort_range ''out'' 0 0,
         ''sel'' \<mapsto> BasicPort_range ''mem_inv'' 1 1, ''selb'' \<mapsto> BasicPort_range ''mem'' 1 1] True,
      ModuleInstance 1 0
        [''in'' \<mapsto> BasicPort_range ''in'' 2 2, ''out'' \<mapsto> BasicPort_range ''out'' 0 0,
         ''sel'' \<mapsto> BasicPort_range ''mem'' 2 2, ''selb'' \<mapsto> BasicPort_range ''mem_inv'' 2 2] True,
      ModuleInstance 1 0
        [''in'' \<mapsto> BasicPort_range ''in'' 3 3, ''out'' \<mapsto> BasicPort_range ''out'' 0 0,
         ''sel'' \<mapsto> BasicPort_range ''mem'' 3 3, ''selb'' \<mapsto> BasicPort_range ''mem_inv'' 3 3] True,
      ModuleEnd ''mux_size4_basis_input4''] \<and>
   written (fp (state_of (generate_verilog_mux_branch_module ex_subckt_name (ex_circuit_lib False)
                            0 4 ex_mux_graph ex_state))) =
     [ModuleDeclaration 1
        \<lparr>mod_name = ''mux_size4_basis_input4'',
           mod_ports = branch_module_ports (ex_circuit_lib False) 0 ex_mux_graph,
           mod_children = []\<rparr>] @
     behavioral_head ex_mux_graph @
     [Str (tab @ tab), Num 4, Str [CHR 0x27, CHR ''b''], Str ''1000'', Str '': '',
      Port VERILOG_PORT_CONKT (BasicPort_sized ''out_reg'' 1), Str '' <= '',
      Port VERILOG_PORT_CONKT (BasicPort_range ''in'' 0 0), Str '';'', Endl,
      Str (tab @ tab), Num 4, Str [CHR 0x27, CHR ''b''], Str ''0000'', Str '': '',
      Port VERILOG_PORT_CONKT (BasicPort_sized ''out_reg'' 1), Str '' <= '',
      Port VERILOG_PORT_CONKT (BasicPort_range ''in'' 1 1), Str '';'', Endl,
      Str (tab @ tab), Num 4, Str [CHR 0x27, CHR ''b''], Str ''0010'', Str '': '',
      Port VERILOG_PORT_CONKT (BasicPort_sized ''out_reg'' 1), Str '' <= '',
      Port VERILOG_PORT_CONKT (BasicPort_range ''in'' 2 2), Str '';'', Endl,
      Str (tab @ tab), Num 4, Str [CHR 0x27, CHR ''b''], Str ''0001'', Str '': '',
      Port VERILOG_PORT_CONKT (BasicPort_sized ''out_reg'' 1), Str '' <= '',
      Port VERILOG_PORT_CONKT (BasicPort_range ''in'' 3 3), Str '';'', Endl] @
     behavioral_tail ex_mux_graph @
     [ModuleEnd ''mux_size4_basis_input4'']"
proof -
  let ?mm1 = "[ex_tgate_module,
               \<lparr>mod_name = ''mux_size4_basis_input4'', mod_ports = [], mod_children = []\<rparr>]"
  have nm: "ex_subckt_name lib 0 4 (num_inputs ex_mux_graph) = ''mux_size4_basis_input4''"
    if "model_name lib 0 = ''mux''" for lib
    using that by (simp add: ex_defs ex_defs2 num_inputs_def to_string_digit digit_char_def)
  have rram: "generate_verilog_mux_branch_module ex_subckt_name ex_rram_lib 0 4 ex_mux_graph
      ex_state = Inr ex_state"
    using technology_dispatch[where lib = ex_rram_lib and model = 0 and nm = ex_subckt_name
        and mux_size = 4 and g = ex_mux_graph and st = ex_state]
    by (simp add: ex_defs ex_defs2)
  have other: "generate_verilog_mux_branch_module ex_subckt_name ex_other_tech_lib 0 4
      ex_mux_graph ex_state = Inl (InvalidDesignTech ''mux'', ex_state)"
    using technology_dispatch[where lib = ex_other_tech_lib and model = 0 and nm = ex_subckt_name
        and mux_size = 4 and g = ex_mux_graph and st = ex_state]
    by (simp add: ex_defs ex_defs2)
  have structural: "written (fp (state_of (generate_verilog_mux_branch_module ex_subckt_name
      (ex_circuit_lib True) 0 4 ex_mux_graph ex_state))) =
     [ModuleDeclaration 1
        \<lparr>mod_name = ''mux_size4_basis_input4'',
           mod_ports = branch_module_ports (ex_circuit_lib True) 0 ex_mux_graph,
           mod_children = []\<rparr>,
      Comment ''---- Structure-level description -----'',
      ModuleInstance 1 0
        [''in'' \<mapsto> BasicPort_range ''in'' 0 0, ''out'' \<mapsto> BasicPort_range ''out'' 0 0,
         ''sel'' \<mapsto> BasicPort_range ''mem'' 0 0, ''selb'' \<mapsto> BasicPort_range ''mem_inv'' 0 0] True,
      ModuleInstance 1 0
        [''in'' \<mapsto> BasicPort_range ''in'' 1 1, ''out'' \<mapsto> BasicPort_range ''out'' 0 0,
         ''sel'' \<mapsto> BasicPort_range ''mem_inv'' 1 1, ''selb'' \<mapsto> BasicPort_range ''mem'' 1 1] True,
      ModuleInstance 1 0
        [''in'' \<mapsto> BasicPort_range ''in'' 2 2, ''out'' \<mapsto> BasicPort_range ''out'' 0 0,
         ''sel'' \<mapsto> BasicPort_range ''mem'' 2 2, ''selb'' \<mapsto> BasicPort_range ''mem_inv'' 2 2] True,
      ModuleInstance 1 0
        [''in'' \<mapsto> BasicPort_range ''in'' 3 3, ''out'' \<mapsto> BasicPort_range ''out'' 0 0,
         ''sel'' \<mapsto> BasicPort_range ''mem'' 3 3, ''selb'' \<mapsto> BasicPort_range ''mem_inv'' 3 3] True,
      ModuleEnd ''mux_size4_basis_input4'']"
    using technology_dispatch[where lib = "ex_circuit_lib True" and model = 0
        and nm = ex_subckt_name and mux_size = 4 and g = ex_mux_graph and st = ex_state
        and o' = 4 and tid = 0 and ?mm1.0 = ?mm1 and mid = 1]
    by (simp add: ex_defs ex_defs2 find_edges_def add_module_def tgate_instance_def
        tgate_port_map_def BasicPort_range_def add_ports_def num_inputs_def to_string_digit
        digit_char_def eval_nat_numeral)
  have behavioral: "written (fp (state_of (generate_verilog_mux_branch_module ex_subckt_name
      (ex_circuit_lib False) 0 4 ex_mux_graph ex_state))) =
     [ModuleDeclaration 1
        \<lparr>mod_name = ''mux_size4_basis_input4'',
           mod_ports = branch_module_ports (ex_circuit_lib False) 0 ex_mux_graph,
           mod_children = []\<rparr>] @
     behavioral_head ex_mux_graph @
     [Str (tab @ tab), Num 4, Str [CHR 0x27, CHR ''b''], Str ''1000'', Str '': '',
      Port VERILOG_PORT_CONKT (BasicPort_sized ''out_reg'' 1), Str '' <= '',
      Port VERILOG_PORT_CONKT (BasicPort_range ''in'' 0 0), Str '';'', Endl,
      Str (tab @ tab), Num 4, Str [CHR 0x27, CHR ''b''], Str ''0000'', Str '': '',
      Port VERILOG_PORT_CONKT (BasicPort_sized ''out_reg'' 1), Str '' <= '',
      Port VERILOG_PORT_CONKT (BasicPort_range ''in'' 1 1), Str '';'', Endl,
      Str (tab @ tab), Num 4, Str [CHR 0x27, CHR ''b''], Str ''0010'', Str '': '',
      Port VERILOG_PORT_CONKT (BasicPort_sized ''out_reg'' 1), Str '' <= '',
      Port VERILOG_PORT_CONKT (BasicPort_range ''in'' 2 2), Str '';'', Endl,
      Str (tab @ tab), Num 4, Str [CHR 0x27, CHR ''b''], Str ''0001'', Str '': '',
      Port VERILOG_PORT_CONKT (BasicPort_sized ''out_reg'' 1), Str '' <= '',
      Port VERILOG_PORT_CONKT (BasicPort_range ''in'' 3 3), Str '';'', Endl] @
     behavioral_tail ex_mux_graph @
     [ModuleEnd ''mux_size4_basis_input4'']"
    using technology_dispatch[where lib = "ex_circuit_lib False" and model = 0
        and nm = ex_subckt_name and mux_size = 4 and g = ex_mux_graph and st = ex_state
        and o' = 4 and p = 20 and ?mm1.0 = ?mm1 and mid = 1]
    by (simp add: ex_defs ex_defs2 find_edges_def add_module_def mux_graph_invariant_def
        case_entry_def digit_char_def add_ports_def num_outputs_def num_inputs_def
        BasicPort_range_def BasicPort_sized_def to_string_digit eval_nat_numeral)
  from rram other structural behavioral show ?thesis by (intro conjI)
qed

section \<open>Logic-gate pass gates\<close>

text \<open>
  Claim C7. For every circuit model whose pass-gate model is a 2:1 logic-gate
  multiplexer, branch-module generation is skipped entirely, on either design technology
  (CMOS or RRAM): nothing is written to the stream and nothing is registered in the
  module manager. The skip is no error: the call returns, and the loop over the branches
  goes on with the next branch in the same state.
\<close>

theorem mux2_gate_skipped:
  assumes "model_type lib (pass_gate_logic_model lib model) = SPICE_MODEL_GATE"
    and "gate_type lib (pass_gate_logic_model lib model) = SPICE_MODEL_GATE_MUX2"
    and "design_tech_type lib model = SPICE_MODEL_DESIGN_CMOS \<or>
         design_tech_type lib model = SPICE_MODEL_DESIGN_RRAM"
  shows "generate_verilog_mux_branch_module nm lib model mux_size g st = Inr st \<and>
         for_each (generate_verilog_mux_branch_module nm lib model mux_size) (g # gs) st =
         for_each (generate_verilog_mux_branch_module nm lib model mux_size) gs st"
proof -
  have "generate_verilog_mux_branch_module nm lib model mux_size g st = Inr st"
    using assms by (auto simp: generate_verilog_mux_branch_module_def cmos_module_gate)
  then show ?thesis by simp
qed

theorem mux2_gate_skipped_witness:
  "model_type ex_gate_lib (pass_gate_logic_model ex_gate_lib 0) = SPICE_MODEL_GATE \<and>
   gate_type ex_gate_lib (pass_gate_logic_model ex_gate_lib 0) = SPICE_MODEL_GATE_MUX2 \<and>
   design_tech_type ex_gate_lib 0 = SPICE_MODEL_DESIGN_CMOS \<and>
   generate_verilog_mux_branch_module ex_subckt_name ex_gate_lib 0 4 ex_mux_graph ex_state =
     Inr ex_state \<and>
   design_tech_type ex_rram_gate_lib 0 = SPICE_MODEL_DESIGN_RRAM \<and>
   generate_verilog_mux_branch_module ex_subckt_name ex_rram_gate_lib 0 4 ex_mux_graph ex_state =
     Inr ex_state"
  using mux2_gate_skipped[of ex_gate_lib 0 ex_subckt_name 4 ex_mux_graph ex_state "[]"]
    mux2_gate_skipped[of ex_rram_gate_lib 0 ex_subckt_name 4 ex_mux_graph ex_state "[]"]
  by (simp add: ex_defs ex_defs2)

section \<open>The default value of the configuration port\<close>

text \<open>
  Claim C8, amended. In behavioral mode, past the shape check, the circuit model must
  have exactly one configuration (SRAM) port that is not a mode-select port: with none or
  with several such ports, whatever their default values, generation aborts after the
  module declaration and before the behavioral body. The default value of the one port
  must print as one character, that is be below 10; otherwise generation aborts at the
  same place. Then that digit is the default value given to the behavioral body, which
  uses it for every case literal.
\<close>

theorem single_sram_port_default:
  assumes "model_type lib (pass_gate_logic_model lib model) \<noteq> SPICE_MODEL_GATE"
    and "is_open (fp st)" and "num_outputs g = 1" and "num_levels g = 1"
    and "add_module (module_manager st) name = (mm1, Some mid)"
  shows "generate_verilog_cmos_mux_branch_module lib model name g False st =
         (let ports = filter (\<lambda>port. \<not> port_is_mode_select lib port)
                        (model_ports_by_type lib model SPICE_MODEL_PORT_SRAM True)
          in if length ports \<noteq> 1
             then Inl (AssertionFailed ''1 == non_mode_select_sram_ports.size()'',
                       declared lib model g mm1 mid st)
             else if \<not> port_default_value lib (ports ! 0) < 10
             then Inl (AssertionFailed ''1 == mem_default_val.length()'',
                       declared lib model g mm1 mid st)
             else
              (case generate_verilog_cmos_mux_branch_body_behavioral
                      (BasicPort_sized ''in'' (num_inputs g)) (BasicPort_sized ''out'' (num_outputs g))
                      (BasicPort_sized ''mem'' (num_memory_bits g)) g
                      (digit_char (port_default_value lib (ports ! 0)))
                      (declared lib model g mm1 mid st) of
                 Inl e \<Rightarrow> Inl e
               | Inr st2 \<Rightarrow> Inr (print_verilog_module_end name st2)))"
proof -
  have len: "length (to_string n) \<noteq> 1 \<longleftrightarrow> \<not> n < 10" for n
    by (simp only: length_to_string)
  show ?thesis
    unfolding cmos_module_behavioral[OF assms] Let_def len
    by (auto simp: to_string_digit)
qed

theorem single_sram_port_default_witness:
  "is_open (fp ex_state) \<and> num_outputs ex_mux_graph = 1 \<and> num_levels ex_mux_graph = 1 \<and>
   map (port_default_value ex_two_sram_lib)
     (model_ports_by_type ex_two_sram_lib 0 SPICE_MODEL_PORT_SRAM True) = [0, 0] \<and>
   generate_verilog_cmos_mux_branch_module ex_two_sram_lib 0 ''mux_size4_basis'' ex_mux_graph False
     ex_state =
   Inl (AssertionFailed ''1 == non_mode_select_sram_ports.size()'',
        declared ex_two_sram_lib 0 ex_mux_graph
          [ex_tgate_module, \<lparr>mod_name = ''mux_size4_basis'', mod_ports = [], mod_children = []\<rparr>] 1
          ex_state)"
  using single_sram_port_default[of ex_two_sram_lib 0 ex_state ex_mux_graph "''mux_size4_basis''"
      "[ex_tgate_module, \<lparr>mod_name = ''mux_size4_basis'', mod_ports = [], mod_children = []\<rparr>]" 1]
  by (simp add: ex_defs ex_defs2 add_module_def num_outputs_def)

text \<open>Claim C8 as stated fails: two configuration ports with the same default value
  give exactly one distinct default value, and generation aborts all the same.\<close>

theorem single_sram_port_default_counterexample:
  "remdups (map (port_default_value ex_two_sram_lib)
     (filter (\<lambda>port. \<not> port_is_mode_select ex_two_sram_lib port)
        (model_ports_by_type ex_two_sram_lib 0 SPICE_MODEL_PORT_SRAM True))) = [0] \<and>
   generate_verilog_cmos_mux_branch_module ex_two_sram_lib 0 ''mux_size4_basis'' ex_mux_graph False
     ex_state =
   Inl (AssertionFailed ''1 == non_mode_select_sram_ports.size()'',
        \<lparr>module_manager =
           [ex_tgate_module,
            \<lparr>mod_name = ''mux_size4_basis'',
               mod_ports = branch_module_ports ex_two_sram_lib 0 ex_mux_graph,
               mod_children = []\<rparr>],
         fp = \<lparr>is_open = True,
                written = [ModuleDeclaration 1
                   \<lparr>mod_name = ''mux_size4_basis'',
                      mod_ports = branch_module_ports ex_two_sram_lib 0 ex_mux_graph,
                      mod_children = []\<rparr>]\<rparr>\<rparr>)"
  by (simp add: ex_defs ex_defs2 generate_verilog_cmos_mux_branch_module_def
      check_file_handler_def num_outputs_def num_inputs_def add_module_def add_port_def
      print_verilog_module_declaration_def emit_def branch_module_ports_def)

section \<open>One module definition per branch\<close>

text \<open>
  Claim C1, amended. The generation pass makes no check of its own for a name that is
  already present in the module manager: it hands every branch graph of every library
  entry to branch generation. On a pass that returns, the netlist holds one module
  definition per branch whose design technology is CMOS and whose pass-gate model is not
  a logic gate, in the order of the library, under the name of the branch; and every such
  branch is registered: the names in the module manager are the names present before and
  the names of the emitted branches, each new name appended once, so a branch whose name
  is not yet present is emitted and registered. A branch whose name is already present is
  not skipped: with \<open>add_module\<close> as the specification describes it (it returns the
  module that has the name) the branch is emitted again, on the module already
  registered, and the names in the module manager stay pairwise different.
\<close>

theorem one_definition_per_branch:
  assumes "print_verilog_submodule_muxes nm dec upd fname mux_lib lib vdir sdir w = Inr w'"
  shows "(\<exists>toks. w_files w' ((sdir @ fname) @ ''.bak'') = Some toks \<and>
                declared_names toks = emitted_module_names nm dec lib mux_lib) \<and>
         map mod_name (w_module_manager w') =
           register_names (map mod_name (w_module_manager w))
             (emitted_module_names nm dec lib mux_lib) \<and>
         (\<forall>n\<in>set (emitted_module_names nm dec lib mux_lib).
            find_module (w_module_manager w') n \<noteq> None) \<and>
         (distinct (map mod_name (w_module_manager w)) \<longrightarrow>
          distinct (map mod_name (w_module_manager w')))"
proof -
  from assms obtain st where
    run: "process_library nm dec lib mux_lib (pass_start (w_module_manager w) vdir) = Inr st"
    and w': "w' = w\<lparr>w_module_manager := module_manager st,
                    w_files := (w_files w)((sdir @ fname) @ ''.bak'' \<mapsto> written (fp st)),
                    w_sram_orgz_info := upd (w_sram_orgz_info w) (max_mux_size mux_lib)
                                          (max_mux_size mux_lib)\<rparr>"
    by (auto simp: pass_unfold split: if_splits sum.splits prod.splits)
  have reg: "map mod_name (module_manager st) =
      register_names (map mod_name (w_module_manager w)) (emitted_module_names nm dec lib mux_lib)"
    using process_library_registers[OF run] by (simp add: pass_start_def)
  have "set (emitted_module_names nm dec lib mux_lib) \<subseteq> mod_name ` set (module_manager st)"
    using arg_cong[OF reg, of set] by (simp add: set_register_names)
  then have found: "\<forall>n\<in>set (emitted_module_names nm dec lib mux_lib).
      find_module (module_manager st) n \<noteq> None"
    by (auto simp: find_module_None)
  from process_library_success[OF run] reg found show ?thesis
    unfolding w' by (simp add: pass_start_def declared_names_def)
qed

text \<open>A library that holds the 4:1 multiplexer twice: the pass returns.\<close>

theorem one_definition_per_branch_witness:
  "\<not> isl (print_verilog_submodule_muxes ex_subckt_name ex_decompose ex_try_update ''muxes.v''
            [ex_mux, ex_mux] (ex_circuit_lib True) ''verilog/'' ''sub/'' ex_world) \<and>
   emitted_module_names ex_subckt_name ex_decompose (ex_circuit_lib True) [ex_mux, ex_mux] =
     [''mux_size4_basis_input4'', ''mux_size4_basis_input4''] \<and>
   map mod_name (w_module_manager (projr
     (print_verilog_submodule_muxes ex_subckt_name ex_decompose ex_try_update ''muxes.v''
        [ex_mux, ex_mux] (ex_circuit_lib True) ''verilog/'' ''sub/'' ex_world))) =
     [''TGATE'', ''mux_size4_basis_input4''] \<and>
   find_module (w_module_manager (projr
     (print_verilog_submodule_muxes ex_subckt_name ex_decompose ex_try_update ''muxes.v''
        [ex_mux, ex_mux] (ex_circuit_lib True) ''verilog/'' ''sub/'' ex_world)))
     ''mux_size4_basis_input4'' \<noteq> None"
proof -
  let ?r = "print_verilog_submodule_muxes ex_subckt_name ex_decompose ex_try_update ''muxes.v''
              [ex_mux, ex_mux] (ex_circuit_lib True) ''verilog/'' ''sub/'' ex_world"
  have ret: "\<not> isl ?r" by (rule ex_pass_twice_returns)
  then have eq: "?r = Inr (projr ?r)" by simp
  have names: "emitted_module_names ex_subckt_name ex_decompose (ex_circuit_lib True)
      [ex_mux, ex_mux] = [''mux_size4_basis_input4'', ''mux_size4_basis_input4'']"
    by (simp add: emitted_module_names_def emits_def ex_defs ex_defs2 num_inputs_def
        to_string_digit digit_char_def)
  have present: "map mod_name (w_module_manager ex_world) = [''TGATE'']"
    by (simp add: ex_defs ex_defs2)
  have "register_names [''TGATE''] [''mux_size4_basis_input4'', ''mux_size4_basis_input4''] =
      [''TGATE'', ''mux_size4_basis_input4'']"
    by (simp add: register_names_def)
  with one_definition_per_branch[OF eq] ret names present show ?thesis by simp
qed

text \<open>Claim C1 as stated fails: for that library the netlist holds two module
  definitions of the one name.\<close>

theorem one_definition_per_branch_counterexample:
  "\<not> isl (print_verilog_submodule_muxes ex_subckt_name ex_decompose ex_try_update ''muxes.v''
            [ex_mux, ex_mux] (ex_circuit_lib True) ''verilog/'' ''sub/'' ex_world) \<and>
   map_option declared_names (w_files (projr
     (print_verilog_submodule_muxes ex_subckt_name ex_decompose ex_try_update ''muxes.v''
        [ex_mux, ex_mux] (ex_circuit_lib True) ''verilog/'' ''sub/'' ex_world)) ''sub/muxes.v.bak'') =
     Some [''mux_size4_basis_input4'', ''mux_size4_basis_input4'']"
proof -
  let ?r = "print_verilog_submodule_muxes ex_subckt_name ex_decompose ex_try_update ''muxes.v''
              [ex_mux, ex_mux] (ex_circuit_lib True) ''verilog/'' ''sub/'' ex_world"
  have ret: "\<not> isl ?r" by (rule ex_pass_twice_returns)
  then have eq: "?r = Inr (projr ?r)" by simp
  from eq obtain st where
    run: "process_library ex_subckt_name ex_decompose (ex_circuit_lib True) [ex_mux, ex_mux]
            (pass_start (w_module_manager ex_world) ''verilog/'') = Inr st"
    and fl: "w_files (projr ?r) ''sub/muxes.v.bak'' = Some (written (fp st))"
    by (auto simp: pass_unfold split: if_splits sum.splits prod.splits)
  have names: "emitted_module_names ex_subckt_name ex_decompose (ex_circuit_lib True)
      [ex_mux, ex_mux] = [''mux_size4_basis_input4'', ''mux_size4_basis_input4'']"
    by (simp add: emitted_module_names_def emits_def ex_defs ex_defs2 num_inputs_def
        to_string_digit digit_char_def)
  from process_library_success[OF run] names
  have "declared_names (written (fp st)) =
      [''mux_size4_basis_input4'', ''mux_size4_basis_input4'']"
    by (simp add: pass_start_def declared_names_def)
  with ret fl show ?thesis by simp
qed

section \<open>The output file\<close>

text \<open>
  Claim C2, amended. The generation pass writes the netlist to the output file name
  extended with the staging suffix \<open>.bak\<close> and never renames it: whether the pass
  returns or aborts, every other file, the one of the base name included, is as it was.
  After a pass that returns, the completed netlist is under the staging name; a pass that
  aborts leaves at most a partial file under the staging name.
\<close>

theorem staging_file_only:
  "(\<forall>p. p \<noteq> (sdir @ fname) @ ''.bak'' \<longrightarrow>
        w_files (world_of (print_verilog_submodule_muxes nm dec upd fname mux_lib lib vdir sdir w)) p =
        w_files w p) \<and>
   w_files (world_of (print_verilog_submodule_muxes nm dec upd fname mux_lib lib vdir sdir w))
     (sdir @ fname) = w_files w (sdir @ fname) \<and>
   (case print_verilog_submodule_muxes nm dec upd fname mux_lib lib vdir sdir w of
      Inr w' \<Rightarrow>
        (\<exists>st. process_library nm dec lib mux_lib (pass_start (w_module_manager w) vdir) = Inr st \<and>
              w_files w' ((sdir @ fname) @ ''.bak'') = Some (written (fp st)))
    | Inl (e, w') \<Rightarrow>
        w' = w \<or>
        (\<exists>st. process_library nm dec lib mux_lib (pass_start (w_module_manager w) vdir) = Inl (e, st) \<and>
              w_files w' ((sdir @ fname) @ ''.bak'') = Some (written (fp st))))"
  by (simp add: pass_unfold split: sum.splits prod.splits)

theorem staging_file_only_witness:
  "\<not> isl (print_verilog_submodule_muxes ex_subckt_name ex_decompose ex_try_update ''muxes.v''
            [ex_mux] (ex_circuit_lib True) ''verilog/'' ''sub/'' ex_world) \<and>
   w_files (world_of
     (print_verilog_submodule_muxes ex_subckt_name ex_decompose ex_try_update ''muxes.v''
        [ex_mux] (ex_circuit_lib True) ''verilog/'' ''sub/'' ex_world)) ''sub/muxes.v'' =
     w_files ex_world ''sub/muxes.v''"
  using staging_file_only[where nm = ex_subckt_name and dec = ex_decompose
      and upd = ex_try_update and fname = "''muxes.v''" and mux_lib = "[ex_mux]"
      and lib = "ex_circuit_lib True" and vdir = "''verilog/''" and sdir = "''sub/''"
      and w = ex_world] ex_pass_returns
  by simp

text \<open>Claim C2 as stated fails: after a pass that returns, there is no file of the base
  name; the netlist is under the staging name.\<close>

theorem staging_file_only_counterexample:
  "\<not> isl (print_verilog_submodule_muxes ex_subckt_name ex_decompose ex_try_update ''muxes.v''
            [ex_mux] (ex_circuit_lib True) ''verilog/'' ''sub/'' ex_world) \<and>
   w_files (projr
     (print_verilog_submodule_muxes ex_subckt_name ex_decompose ex_try_update ''muxes.v''
        [ex_mux] (ex_circuit_lib True) ''verilog/'' ''sub/'' ex_world)) ''sub/muxes.v'' = None \<and>
   w_files (projr
     (print_verilog_submodule_muxes ex_subckt_name ex_decompose ex_try_update ''muxes.v''
        [ex_mux] (ex_circuit_lib True) ''verilog/'' ''sub/'' ex_world)) ''sub/muxes.v.bak'' \<noteq> None"
proof -
  let ?r = "print_verilog_submodule_muxes ex_subckt_name ex_decompose ex_try_update ''muxes.v''
              [ex_mux] (ex_circuit_lib True) ''verilog/'' ''sub/'' ex_world"
  have ret: "\<not> isl ?r" by (rule ex_pass_returns)
  then have eq: "?r = Inr (projr ?r)" by simp
  from eq have "w_files (projr ?r) ''sub/muxes.v'' = None \<and>
                w_files (projr ?r) ''sub/muxes.v.bak'' \<noteq> None"
    by (auto simp: pass_unfold ex_world_def split: if_splits sum.splits prod.splits)
  with ret show ?thesis by simp
qed

section \<open>The reserved configuration lines\<close>

text \<open>
  Claim C9. On a pass that returns, the update of the configuration-memory organization
  is applied exactly once, to the state the pass was given, after the loop over the whole
  library has returned, with the maximum multiplexer size of the library as the number of
  reserved bit lines and as the number of reserved word lines. On a pass that aborts it
  is not applied. The maximum is an upper bound of the multiplexer sizes of the library
  and, for a library that is not empty, one of them.
\<close>

theorem reserved_blwl_after_library:
  "(case print_verilog_submodule_muxes nm dec upd fname mux_lib lib vdir sdir w of
      Inr w' \<Rightarrow>
        w_sram_orgz_info w' =
          upd (w_sram_orgz_info w) (max_mux_size mux_lib) (max_mux_size mux_lib) \<and>
        (\<exists>st. process_library nm dec lib mux_lib (pass_start (w_module_manager w) vdir) = Inr st \<and>
              w_module_manager w' = module_manager st)
    | Inl (e, w') \<Rightarrow> w_sram_orgz_info w' = w_sram_orgz_info w) \<and>
   (\<forall>mux\<in>set mux_lib. num_inputs (mux_graph mux) \<le> max_mux_size mux_lib) \<and>
   (mux_lib \<noteq> [] \<longrightarrow>
      max_mux_size mux_lib \<in> (\<lambda>mux. num_inputs (mux_graph mux)) ` set mux_lib)"
  using max_mux_size_upper[of mux_lib] max_mux_size_attained[of mux_lib]
  by (simp add: pass_unfold split: sum.splits prod.splits)

theorem reserved_blwl_after_library_witness:
  "max_mux_size [ex_mux] = 4 \<and>
   \<not> isl (print_verilog_submodule_muxes ex_subckt_name ex_decompose ex_try_update ''muxes.v''
            [ex_mux] (ex_circuit_lib True) ''verilog/'' ''sub/'' ex_world) \<and>
   w_sram_orgz_info (world_of
     (print_verilog_submodule_muxes ex_subckt_name ex_decompose ex_try_update ''muxes.v''
        [ex_mux] (ex_circuit_lib True) ''verilog/'' ''sub/'' ex_world)) = [(4, 4)]"
  using reserved_blwl_after_library[where nm = ex_subckt_name and dec = ex_decompose
      and upd = ex_try_update and fname = "''muxes.v''" and mux_lib = "[ex_mux]"
      and lib = "ex_circuit_lib True" and vdir = "''verilog/''" and sdir = "''sub/''"
      and w = ex_world]
    ex_pass_returns
  by (auto simp: max_mux_size_def ex_defs ex_defs2 num_inputs_def isl_def
      split: sum.splits prod.splits)

end
